theory Spec2Isabelle
  imports Complex_Main "HOL-Library.Sublist" "HOL-Library.Word"
begin

section \<open>The Hyperwallet encryption processor (src/utils/Encryption.ts)\<close>

text \<open>
  The class \<^verbatim>\<open>Encryption\<close> signs and encrypts request bodies and decrypts and verifies
  response bodies with the third-party packages node-jose (JWK, JWS, JWE), fs and
  superagent. The class is embedded as a record of its fields and one HOL function per
  method. What the packages compute is not part of the repository: it enters every
  function as a parameter (the records \<open>jose\<close> and \<open>io\<close> below), so that every theorem
  holds for all behaviours of the packages. JavaScript numbers are embedded as unbounded
  integers: the clock is an integer number of milliseconds and the validity window an
  integer number of minutes, which is exact inside the range of \<^verbatim>\<open>Date\<close>.
\<close>

subsection \<open>Errors and promises\<close>

text \<open>
  Every failure of the class is \<^verbatim>\<open>new Error(message)\<close>; failures differ by their message
  only. The names below are those of the specification's taxonomy, the strings are the
  source's.
\<close>

datatype error = Error (message: string)

definition AlgorithmNotProvisioned :: "string \<Rightarrow> error" where
  "AlgorithmNotProvisioned a =
     Error (''JWK set doesn'' @ [CHR 0x27] @ ''t contain key with algorithm = '' @ a)"

definition SigningFailed :: "string \<Rightarrow> error" where
  "SigningFailed k = Error (''Failed to sign with key id = '' @ k)"

definition SignatureExpired :: error where
  "SignatureExpired = Error ''JWS signature has expired''"

definition SignatureInvalid :: "string \<Rightarrow> error" where
  "SignatureInvalid k = Error (''Failed to verify signature with key id = '' @ k)"

definition EncryptionFailed :: "string \<Rightarrow> error" where
  "EncryptionFailed k = Error (''Failed to encrypt payload with key id = '' @ k)"

definition DecryptionFailed :: "string \<Rightarrow> error" where
  "DecryptionFailed k = Error (''Failed to decrypt payload with key id = '' @ k)"

definition MalformedKeySet :: error where
  "MalformedKeySet = Error ''Failed to create keyStore from given jwkSet''"

definition WrongLocation :: "string \<Rightarrow> error" where
  "WrongLocation p = Error (''Wrong JWK set location path = '' @ p)"

text \<open>
  A promise settles once: \<^verbatim>\<open>resolve\<close> and \<^verbatim>\<open>reject\<close> on a settled promise do nothing.
  \<open>Pending\<close> as the final value of a method is a promise that never settles. That
  happens where the \<^verbatim>\<open>async\<close> executor of \<^verbatim>\<open>new Promise(async (resolve, reject) => ...)\<close>
  throws: the exception rejects the executor's own promise, which nobody observes, and
  neither \<^verbatim>\<open>resolve\<close> nor \<^verbatim>\<open>reject\<close> of the outer promise is ever called.
\<close>

datatype 'a promise = Pending | Resolved 'a | Rejected error

fun resolve :: "'a \<Rightarrow> 'a promise \<Rightarrow> 'a promise" where
  "resolve v Pending = Resolved v"
| "resolve v p = p"

fun reject :: "error \<Rightarrow> 'a promise \<Rightarrow> 'a promise" where
  "reject e Pending = Rejected e"
| "reject e p = p"

subsection \<open>Keys, headers and the third-party packages\<close>

record key =
  kid :: string
  alg :: string
  material :: string

type_synonym keyStore = "key list"

text \<open>
  Modelled from the spec: the key store of the package node-jose is not among the
  sources. A key store is the list of the keys of one JWK-set document in document order, and
  \<^verbatim>\<open>keyStore.all({ alg })\<close> is the specification's lookup by algorithm: the keys whose
  algorithm attribute equals \<open>a\<close>, in document order. The source takes element \<^verbatim>\<open>[0]\<close> of
  the result, which is \<^verbatim>\<open>undefined\<close> on an empty array. The keys a store returns are key
  objects already, on which \<^verbatim>\<open>jose.JWK.asKey\<close> resolves to the object itself.
\<close>

definition KeyStore_all :: "keyStore \<Rightarrow> string \<Rightarrow> key list" where
  "KeyStore_all ks a = filter (\<lambda>k. alg k = a) ks"

definition first :: "'a list \<Rightarrow> 'a option" where
  "first xs = (case xs of [] \<Rightarrow> None | x # _ \<Rightarrow> Some x)"

record signHeader =
  sh_format :: string
  sh_alg :: string
  sh_crit :: "string list"
  sh_exp :: int
  sh_kid :: string

record encryptionHeader =
  eh_format :: string
  eh_alg :: string
  eh_enc :: string
  eh_kid :: string

text \<open>
  The protected header of a parsed JWS as the \<^verbatim>\<open>exp\<close> handler sees it. \<open>jh_exp\<close> is
  \<open>None\<close> when the header has no numeric \<^verbatim>\<open>exp\<close> member; the comparison
  \<^verbatim>\<open>now > undefined\<close> is false in JavaScript.
\<close>

record jwsHeader =
  jh_alg :: string
  jh_kid :: string
  jh_exp :: "int option"

record verificationResult =
  vr_payload :: string
  vr_header :: jwsHeader

datatype jwkSetData = JsonText string | JsonObject "(string \<times> string) list"

text \<open>
  A call of a package function that returns a promise has three outcomes, which the
  source treats differently: the promise fulfils, the promise rejects (the class's own
  \<^verbatim>\<open>.catch(() => reject(...))\<close> replaces the reason by its own error), or the call throws
  before it returns a promise (inside a \<^verbatim>\<open>then\<close> callback the exception skips that inner
  \<^verbatim>\<open>catch\<close> and reaches the outer \<^verbatim>\<open>.catch(reject)\<close> with the raw error).
\<close>

datatype 'a call = Fulfils 'a | Rejects | Throws error

text \<open>
  The operations of node-jose and \<^verbatim>\<open>JSON.stringify\<close>, as parameters. Compact JWS and JWE
  tokens and plaintexts are strings, and request bodies are JSON-serializable values of
  a type \<open>'p\<close> on which \<^verbatim>\<open>JSON.stringify\<close> returns a string. For signing, encrypting and
  decrypting \<open>None\<close> is a rejected promise. \<^verbatim>\<open>createVerify(key, options).verify(body)\<close> is
  split into the two steps between which node-jose calls a handler given as a function.
  \<open>parseJWS\<close> is the first step: it parses the compact token and yields the protected
  header, or throws (the header of the token is not JSON: \<^verbatim>\<open>verify\<close> parses it before
  it returns its promise), or rejects before any handler runs. \<open>verifySignature\<close> is the
  second step, the signature check; \<open>None\<close> is a rejected promise. \<open>asKeyStore\<close> throws
  where \<^verbatim>\<open>jose.JWK.asKeyStore\<close> does before it returns its promise (a text that is not
  JSON) and rejects on a document that is JSON and not a key set.
\<close>

record 'p jose =
  JSON_stringify :: "'p \<Rightarrow> string"
  createSign :: "signHeader \<Rightarrow> key \<Rightarrow> string \<Rightarrow> string option"
  parseJWS :: "string \<Rightarrow> jwsHeader call"
  verifySignature :: "key \<Rightarrow> string \<Rightarrow> verificationResult option"
  createEncrypt :: "encryptionHeader \<Rightarrow> key \<Rightarrow> string \<Rightarrow> string option"
  createDecrypt :: "key \<Rightarrow> string \<Rightarrow> string option"
  asKeyStore :: "jwkSetData \<Rightarrow> keyStore call"

text \<open>
  The file system and the HTTP client. \<open>readFile\<close> yields \<open>Inl\<close> the message of the
  error of \<^verbatim>\<open>fs.readFile\<close> or \<open>Inr\<close> the text of the file; \<open>request\<close> yields \<open>None\<close>
  when the GET request is rejected. A response body is \<open>None\<close> when it is falsy and
  otherwise the list of its members.
\<close>

record response =
  status :: nat
  body :: "(string \<times> string) list option"
  resp_text :: string

record io =
  existsSync :: "string \<Rightarrow> bool"
  readFile :: "string \<Rightarrow> string + string"
  request :: "string \<Rightarrow> response option"

datatype event = ExistsSync string | ReadFile string | HttpGet string

datatype store = HyperwalletStore | ClientStore

subsection \<open>The class\<close>

record Encryption =
  clientPrivateKeySetLocation :: string
  hyperwalletKeySetLocation :: string
  clientKeyStore :: "keyStore option"
  hwKeyStore :: "keyStore option"
  encryptionAlgorithm :: string
  signAlgorithm :: string
  encryptionMethod :: string
  jwsExpirationMinutes :: int

text \<open>The constructor with its default arguments; both key stores start out undefined.\<close>

definition new_Encryption :: "string \<Rightarrow> string \<Rightarrow> Encryption" where
  "new_Encryption cl hw =
     \<lparr> clientPrivateKeySetLocation = cl,
       hyperwalletKeySetLocation = hw,
       clientKeyStore = None,
       hwKeyStore = None,
       encryptionAlgorithm = ''RSA-OAEP-256'',
       signAlgorithm = ''RS256'',
       encryptionMethod = ''A256CBC-HS512'',
       jwsExpirationMinutes = 5 \<rparr>"

subsection \<open>Clock arithmetic\<close>

text \<open>
  \<^verbatim>\<open>Math.round\<close> rounds to the nearest integer, a tie towards plus infinity. The clock
  \<^verbatim>\<open>new Date().getTime()\<close> is the argument \<open>now\<close> of every function that reads it.
\<close>

definition Math_round :: "rat \<Rightarrow> int" where
  "Math_round x = \<lfloor>x + 1 / 2\<rfloor>"

definition millisecondsInMinute :: int where
  "millisecondsInMinute = 60000"

definition millisecondsInSecond :: int where
  "millisecondsInSecond = 1000"

definition getSignatureExpirationTime :: "Encryption \<Rightarrow> int \<Rightarrow> int" where
  "getSignatureExpirationTime this now =
     (let currentTime = now + jwsExpirationMinutes this * millisecondsInMinute
      in Math_round (of_int currentTime / of_int millisecondsInSecond))"

definition getCurrentTime :: "int \<Rightarrow> int" where
  "getCurrentTime now = Math_round (of_int now / of_int millisecondsInSecond)"

subsection \<open>Signing, encrypting, decrypting, verifying\<close>

definition signHeader_of :: "Encryption \<Rightarrow> int \<Rightarrow> key \<Rightarrow> signHeader" where
  "signHeader_of this now k =
     \<lparr> sh_format = ''compact'',
       sh_alg = alg k,
       sh_crit = [''exp''],
       sh_exp = getSignatureExpirationTime this now,
       sh_kid = kid k \<rparr>"

definition signBody :: "'p jose \<Rightarrow> int \<Rightarrow> Encryption \<Rightarrow> 'p \<Rightarrow> string promise" where
  "signBody lib now this body' =
     (case clientKeyStore this of
        None \<Rightarrow> Pending
      | Some ks \<Rightarrow>
          (case first (KeyStore_all ks (signAlgorithm this)) of
             None \<Rightarrow> reject (AlgorithmNotProvisioned (signAlgorithm this)) Pending
           | Some k \<Rightarrow>
               (case createSign lib (signHeader_of this now k) k (JSON_stringify lib body') of
                  Some v \<Rightarrow> resolve v Pending
                | None \<Rightarrow> reject (SigningFailed (kid k)) Pending)))"

definition encryptionHeader_of :: "Encryption \<Rightarrow> key \<Rightarrow> encryptionHeader" where
  "encryptionHeader_of this k =
     \<lparr> eh_format = ''compact'',
       eh_alg = alg k,
       eh_enc = encryptionMethod this,
       eh_kid = kid k \<rparr>"

definition encryptBody :: "'p jose \<Rightarrow> Encryption \<Rightarrow> string \<Rightarrow> string promise" where
  "encryptBody lib this body' =
     (case hwKeyStore this of
        None \<Rightarrow> Pending
      | Some ks \<Rightarrow>
          (case first (KeyStore_all ks (encryptionAlgorithm this)) of
             None \<Rightarrow> reject (AlgorithmNotProvisioned (encryptionAlgorithm this)) Pending
           | Some k \<Rightarrow>
               (case createEncrypt lib (encryptionHeader_of this k) k body' of
                  Some v \<Rightarrow> resolve v Pending
                | None \<Rightarrow> reject (EncryptionFailed (kid k)) Pending)))"

definition decryptBody :: "'p jose \<Rightarrow> Encryption \<Rightarrow> string \<Rightarrow> string promise" where
  "decryptBody lib this body' =
     (case clientKeyStore this of
        None \<Rightarrow> Pending
      | Some ks \<Rightarrow>
          (case first (KeyStore_all ks (encryptionAlgorithm this)) of
             None \<Rightarrow> reject (AlgorithmNotProvisioned (encryptionAlgorithm this)) Pending
           | Some k \<Rightarrow>
               (case createDecrypt lib k body' of
                  Some plaintext \<Rightarrow> resolve plaintext Pending
                | None \<Rightarrow> reject (DecryptionFailed (kid k)) Pending)))"

text \<open>
  \<^verbatim>\<open>checkSignature\<close>: the \<^verbatim>\<open>exp\<close> handler runs on the parsed token before the signature
  is checked and calls \<^verbatim>\<open>reject\<close> without throwing, so verification goes on and its own
  \<^verbatim>\<open>resolve\<close> or \<^verbatim>\<open>reject\<close> meets a promise that may be settled already. When
  \<^verbatim>\<open>verify\<close> throws, the exception leaves the \<^verbatim>\<open>then\<close> callback and the outer
  \<^verbatim>\<open>.catch(reject)\<close> rejects with the raw error; when its promise rejects, the inner
  \<^verbatim>\<open>catch\<close> rejects with the verification error of the key.
\<close>

definition exp_handler :: "int \<Rightarrow> jwsHeader \<Rightarrow> 'a promise \<Rightarrow> 'a promise" where
  "exp_handler now h p =
     (case jh_exp h of
        None \<Rightarrow> p
      | Some e \<Rightarrow> if getCurrentTime now > e then reject SignatureExpired p else p)"

definition checkSignature ::
  "'p jose \<Rightarrow> int \<Rightarrow> Encryption \<Rightarrow> string \<Rightarrow> verificationResult promise" where
  "checkSignature lib now this body' =
     (case hwKeyStore this of
        None \<Rightarrow> Pending
      | Some ks \<Rightarrow>
          (case first (KeyStore_all ks (signAlgorithm this)) of
             None \<Rightarrow> reject (AlgorithmNotProvisioned (signAlgorithm this)) Pending
           | Some k \<Rightarrow>
               (case parseJWS lib body' of
                  Throws e \<Rightarrow> reject e Pending
                | Rejects \<Rightarrow> reject (SignatureInvalid (kid k)) Pending
                | Fulfils h \<Rightarrow>
                    (let p = exp_handler now h Pending
                     in case verifySignature lib k body' of
                          Some r \<Rightarrow> resolve r p
                        | None \<Rightarrow> reject (SignatureInvalid (kid k)) p))))"

subsection \<open>Reading key sets and creating the key stores\<close>

definition responseBody :: "response \<Rightarrow> jwkSetData" where
  "responseBody r =
     (case body r of
        None \<Rightarrow> JsonText (resp_text r)
      | Some members \<Rightarrow> if length members \<noteq> 0 then JsonObject members else JsonText (resp_text r))"

definition readKeySet :: "io \<Rightarrow> string \<Rightarrow> jwkSetData promise \<times> event list" where
  "readKeySet sys keySetPath =
     (if existsSync sys keySetPath then
        (case readFile sys keySetPath of
           Inr keySetData \<Rightarrow> resolve (JsonText keySetData) Pending
         | Inl err_message \<Rightarrow> reject (Error err_message) Pending,
         [ExistsSync keySetPath, ReadFile keySetPath])
      else
        (case request sys keySetPath of
           Some r \<Rightarrow> resolve (responseBody r) Pending
         | None \<Rightarrow> reject (WrongLocation keySetPath) Pending,
         [ExistsSync keySetPath, HttpGet keySetPath]))"

text \<open>
  \<^verbatim>\<open>createKeyStore\<close> returns the promise, the object after the whole chain of callbacks
  has run, and the file-system and network events of the chain, each with the store it
  was made for. The first callback parses the hyperwallet key set inside \<^verbatim>\<open>try\<close>, which
  catches a rejected promise and an exception alike; its \<^verbatim>\<open>reject\<close> does not stop the
  chain: the callback returns, and the next \<^verbatim>\<open>then\<close> reads the client key set all the
  same. The last callback parses the client key set without \<^verbatim>\<open>try\<close>: a rejected promise
  goes to its own \<^verbatim>\<open>catch\<close>, an exception skips \<^verbatim>\<open>.then(resolve)\<close> and reaches the outer
  \<^verbatim>\<open>.catch(reject)\<close> with the raw error.
\<close>

definition createKeyStore ::
  "'p jose \<Rightarrow> io \<Rightarrow> Encryption \<Rightarrow> unit promise \<times> Encryption \<times> (store \<times> event) list" where
  "createKeyStore lib sys this =
     (let (r1, t1) = readKeySet sys (hyperwalletKeySetLocation this);
          tr1 = map (Pair HyperwalletStore) t1
      in case r1 of
           Pending \<Rightarrow> (Pending, this, tr1)
         | Rejected e \<Rightarrow> (reject e Pending, this, tr1)
         | Resolved jwkSet \<Rightarrow>
             (let (p1, this1) =
                    (case asKeyStore lib jwkSet of
                       Fulfils result \<Rightarrow> (Pending, this\<lparr>hwKeyStore := Some result\<rparr>)
                     | Rejects \<Rightarrow> (reject MalformedKeySet Pending, this)
                     | Throws e \<Rightarrow> (reject MalformedKeySet Pending, this));
                  (r2, t2) = readKeySet sys (clientPrivateKeySetLocation this1);
                  tr2 = tr1 @ map (Pair ClientStore) t2
              in case r2 of
                   Pending \<Rightarrow> (p1, this1, tr2)
                 | Rejected e \<Rightarrow> (reject e p1, this1, tr2)
                 | Resolved jwkSet2 \<Rightarrow>
                     (case asKeyStore lib jwkSet2 of
                        Fulfils result \<Rightarrow>
                          (resolve () p1, this1\<lparr>clientKeyStore := Some result\<rparr>, tr2)
                      | Rejects \<Rightarrow> (resolve () (reject MalformedKeySet p1), this1, tr2)
                      | Throws e \<Rightarrow> (reject e p1, this1, tr2))))"

subsection \<open>The two end-to-end operations\<close>

definition encrypt ::
  "'p jose \<Rightarrow> io \<Rightarrow> int \<Rightarrow> Encryption \<Rightarrow> 'p
     \<Rightarrow> string promise \<times> Encryption \<times> (store \<times> event) list" where
  "encrypt lib sys now this body' =
     (let (keyStorePromise, this1, tr) =
            (if clientKeyStore this \<noteq> None \<and> hwKeyStore this \<noteq> None
             then (Resolved (), this, [])
             else createKeyStore lib sys this)
      in case keyStorePromise of
           Pending \<Rightarrow> (Pending, this1, tr)
         | Rejected e \<Rightarrow> (Rejected e, this1, tr)
         | Resolved _ \<Rightarrow>
             (case signBody lib now this1 body' of
                Pending \<Rightarrow> (Pending, this1, tr)
              | Rejected e \<Rightarrow> (Rejected e, this1, tr)
              | Resolved signedBody \<Rightarrow> (encryptBody lib this1 signedBody, this1, tr)))"

definition decrypt ::
  "'p jose \<Rightarrow> io \<Rightarrow> int \<Rightarrow> Encryption \<Rightarrow> string
     \<Rightarrow> verificationResult promise \<times> Encryption \<times> (store \<times> event) list" where
  "decrypt lib sys now this body' =
     (let (keyStorePromise, this1, tr) =
            (if hwKeyStore this \<noteq> None
             then (Resolved (), this, [])
             else createKeyStore lib sys this)
      in case keyStorePromise of
           Pending \<Rightarrow> (Pending, this1, tr)
         | Rejected e \<Rightarrow> (Rejected e, this1, tr)
         | Resolved _ \<Rightarrow>
             (case decryptBody lib this1 body' of
                Pending \<Rightarrow> (Pending, this1, tr)
              | Rejected e \<Rightarrow> (Rejected e, this1, tr)
              | Resolved plaintext \<Rightarrow> (checkSignature lib now this1 plaintext, this1, tr)))"

text \<open>
  Two compositions of the operations, for the statements about sequences of calls:
  \<^verbatim>\<open>decrypt(await encrypt(body))\<close> on one object, with the clock and the environment of
  each call, and two \<^verbatim>\<open>encrypt\<close> calls in sequence with the events of both.
\<close>

definition decrypt_encrypt ::
  "'p jose \<Rightarrow> io \<Rightarrow> int \<Rightarrow> io \<Rightarrow> int \<Rightarrow> Encryption \<Rightarrow> 'p \<Rightarrow> verificationResult promise" where
  "decrypt_encrypt lib sys1 t1 sys2 t2 this P =
     (case encrypt lib sys1 t1 this P of
        (Resolved c, this1, tr) \<Rightarrow> fst (decrypt lib sys2 t2 this1 c)
      | (Rejected e, this1, tr) \<Rightarrow> Rejected e
      | (Pending, this1, tr) \<Rightarrow> Pending)"

definition encrypt_twice ::
  "'p jose \<Rightarrow> io \<Rightarrow> int \<Rightarrow> 'p \<Rightarrow> io \<Rightarrow> int \<Rightarrow> 'p \<Rightarrow> Encryption
     \<Rightarrow> string promise \<times> string promise \<times> Encryption \<times> (store \<times> event) list" where
  "encrypt_twice lib sys1 t1 P1 sys2 t2 P2 this =
     (let (r1, this1, tr1) = encrypt lib sys1 t1 this P1;
          (r2, this2, tr2) = encrypt lib sys2 t2 this1 P2
      in (r1, r2, this2, tr1 @ tr2))"

subsection \<open>Segment-wise base64url helpers\<close>

text \<open>
  \<^verbatim>\<open>String.prototype.split('.')\<close> and \<^verbatim>\<open>Array.prototype.join('.')\<close>. Splitting the
  empty string gives one empty segment.
\<close>

fun split_dot :: "string \<Rightarrow> string list" where
  "split_dot [] = [[]]"
| "split_dot (c # cs) =
     (if c = CHR ''.'' then [] # split_dot cs
      else (case split_dot cs of
              [] \<Rightarrow> [[c]]
            | seg # segs \<Rightarrow> (c # seg) # segs))"

fun join_dot :: "string list \<Rightarrow> string" where
  "join_dot [] = []"
| "join_dot [x] = x"
| "join_dot (x # y # ys) = x @ CHR ''.'' # join_dot (y # ys)"

text \<open>
  A \<^verbatim>\<open>Buffer\<close> is a list of bytes. \<^verbatim>\<open>JSON.parse(JSON.stringify(part)).data\<close> is the
  array of the buffer's bytes as numbers, from which \<^verbatim>\<open>Buffer.from\<close> takes each number
  modulo 256. The codec \<^verbatim>\<open>jose.util.base64url\<close> is a parameter.
\<close>

type_synonym buffer = "8 word list"

record decodedBody =
  parts :: "buffer list"

definition Buffer_toJSON_data :: "buffer \<Rightarrow> nat list" where
  "Buffer_toJSON_data b = map unat b"

definition Buffer_from :: "nat list \<Rightarrow> buffer" where
  "Buffer_from xs = map of_nat xs"

definition base64Decode :: "(string \<Rightarrow> buffer) \<Rightarrow> string \<Rightarrow> decodedBody" where
  "base64Decode base64url_decode encryptedBody =
     \<lparr> parts = map base64url_decode (split_dot encryptedBody) \<rparr>"

definition base64Encode :: "(buffer \<Rightarrow> string) \<Rightarrow> decodedBody \<Rightarrow> string" where
  "base64Encode base64url_encode decoded =
     join_dot (map (\<lambda>part. base64url_encode (Buffer_from (Buffer_toJSON_data part)))
                   (parts decoded))"

subsection \<open>Predicates of the statements\<close>

text \<open>
  The key stores an \<^verbatim>\<open>encrypt\<close> call works with: the two stores of the object when both
  are there, otherwise those that both key-set locations yield when each can be read and
  parsed.
\<close>

definition loadable_keySets :: "'p jose \<Rightarrow> io \<Rightarrow> Encryption \<Rightarrow> (keyStore \<times> keyStore) option" where
  "loadable_keySets lib sys this =
     (case (clientKeyStore this, hwKeyStore this) of
        (Some cks, Some hks) \<Rightarrow> Some (cks, hks)
      | _ \<Rightarrow>
         (case fst (readKeySet sys (hyperwalletKeySetLocation this)) of
            Resolved d1 \<Rightarrow>
              (case asKeyStore lib d1 of
                 Fulfils hks \<Rightarrow>
                   (case fst (readKeySet sys (clientPrivateKeySetLocation this)) of
                      Resolved d2 \<Rightarrow>
                        (case asKeyStore lib d2 of
                           Fulfils cks \<Rightarrow> Some (cks, hks)
                         | _ \<Rightarrow> None)
                    | _ \<Rightarrow> None)
               | _ \<Rightarrow> None)
          | _ \<Rightarrow> None))"

text \<open>
  A signing key and a verification key match on a message when signing it succeeds and
  the token parses to a header with the \<^verbatim>\<open>exp\<close> that was signed and verifies to the
  message. An encryption key and a decryption key match on a plaintext when encrypting it
  succeeds and decrypting the result gives the plaintext back.
\<close>

definition matching_signing_pair ::
  "'p jose \<Rightarrow> key \<Rightarrow> key \<Rightarrow> signHeader \<Rightarrow> string \<Rightarrow> bool" where
  "matching_signing_pair lib sk vk h m =
     (case createSign lib h sk m of
        None \<Rightarrow> False
      | Some j \<Rightarrow>
          (case parseJWS lib j of
             Fulfils jh \<Rightarrow> jh_exp jh = Some (sh_exp h)
           | _ \<Rightarrow> False) \<and>
          (case verifySignature lib vk j of
             None \<Rightarrow> False
           | Some r \<Rightarrow> vr_payload r = m))"

definition matching_encryption_pair ::
  "'p jose \<Rightarrow> key \<Rightarrow> key \<Rightarrow> encryptionHeader \<Rightarrow> string \<Rightarrow> bool" where
  "matching_encryption_pair lib ek dk h pt =
     (case createEncrypt lib h ek pt of
        None \<Rightarrow> False
      | Some c \<Rightarrow> createDecrypt lib dk c = Some pt)"

definition matching_key_pairs ::
  "'p jose \<Rightarrow> key \<Rightarrow> key \<Rightarrow> key \<Rightarrow> key \<Rightarrow> signHeader \<Rightarrow> encryptionHeader \<Rightarrow> string \<Rightarrow> bool" where
  "matching_key_pairs lib sk vk ek dk sh eh m =
     (matching_signing_pair lib sk vk sh m \<and>
      (case createSign lib sh sk m of
         None \<Rightarrow> False
       | Some j \<Rightarrow> matching_encryption_pair lib ek dk eh j))"

text \<open>Events that touch the file system, events that go to the network, and fetches.\<close>

fun is_filesystem_access :: "event \<Rightarrow> bool" where
  "is_filesystem_access (ExistsSync p) = True"
| "is_filesystem_access (ReadFile p) = True"
| "is_filesystem_access (HttpGet p) = False"

fun is_network_request :: "event \<Rightarrow> bool" where
  "is_network_request (HttpGet p) = True"
| "is_network_request e = False"

fun is_fetch :: "event \<Rightarrow> bool" where
  "is_fetch (ExistsSync p) = False"
| "is_fetch e = True"

definition fetch_count :: "store \<Rightarrow> (store \<times> event) list \<Rightarrow> nat" where
  "fetch_count st tr = length (filter (\<lambda>(st', e). st' = st \<and> is_fetch e) tr)"

subsection \<open>A small instance of the packages\<close>

text \<open>
  A toy instance of node-jose, the file system and the network, on which the statements
  below are evaluated. A signed token is the expiry in unary, the key material and the
  payload, separated by dots; a ciphertext is the key material, a dot and the plaintext.
  Two keys match when their material is the same.
\<close>

definition demo_client_sig :: key where
  "demo_client_sig = \<lparr> kid = ''client-sig'', alg = ''RS256'', material = ''S'' \<rparr>"

definition demo_client_enc :: key where
  "demo_client_enc = \<lparr> kid = ''client-enc'', alg = ''RSA-OAEP-256'', material = ''E'' \<rparr>"

definition demo_hw_sig :: key where
  "demo_hw_sig = \<lparr> kid = ''hw-sig'', alg = ''RS256'', material = ''S'' \<rparr>"

definition demo_hw_enc :: key where
  "demo_hw_enc = \<lparr> kid = ''hw-enc'', alg = ''RSA-OAEP-256'', material = ''E'' \<rparr>"

definition demo_client_keys :: keyStore where
  "demo_client_keys = [demo_client_sig, demo_client_enc]"

definition demo_hw_keys :: keyStore where
  "demo_hw_keys = [demo_hw_sig, demo_hw_enc]"

definition demo_es256_keys :: keyStore where
  "demo_es256_keys = [\<lparr> kid = ''ec-1'', alg = ''ES256'', material = ''X'' \<rparr>]"

definition demo_createSign :: "signHeader \<Rightarrow> key \<Rightarrow> string \<Rightarrow> string option" where
  "demo_createSign h k m =
     Some (replicate (nat (sh_exp h)) CHR ''I'' @ ''.'' @ material k @ ''.'' @ m)"

definition demo_parseJWS :: "string \<Rightarrow> jwsHeader call" where
  "demo_parseJWS j =
     (case split_dot j of
        e # mat # rest \<Rightarrow>
          Fulfils \<lparr> jh_alg = ''RS256'', jh_kid = ''hw-sig'', jh_exp = Some (int (length e)) \<rparr>
      | _ \<Rightarrow> Throws (Error ''Unexpected end of JSON input''))"

definition demo_verifySignature :: "key \<Rightarrow> string \<Rightarrow> verificationResult option" where
  "demo_verifySignature k j =
     (case split_dot j of
        e # mat # rest \<Rightarrow>
          if mat = material k
          then Some \<lparr> vr_payload = join_dot rest,
                      vr_header = \<lparr> jh_alg = alg k, jh_kid = kid k,
                                    jh_exp = Some (int (length e)) \<rparr> \<rparr>
          else None
      | _ \<Rightarrow> None)"

definition demo_createEncrypt :: "encryptionHeader \<Rightarrow> key \<Rightarrow> string \<Rightarrow> string option" where
  "demo_createEncrypt h k pt = Some (material k @ ''.'' @ pt)"

definition demo_createDecrypt :: "key \<Rightarrow> string \<Rightarrow> string option" where
  "demo_createDecrypt k c =
     (case split_dot c of
        mat # seg # rest \<Rightarrow> if mat = material k then Some (join_dot (seg # rest)) else None
      | _ \<Rightarrow> None)"

definition demo_asKeyStore :: "jwkSetData \<Rightarrow> keyStore call" where
  "demo_asKeyStore d =
     (case d of
        JsonText t \<Rightarrow>
          if t = ''client-jwks'' then Fulfils demo_client_keys
          else if t = ''hw-jwks'' then Fulfils demo_hw_keys
          else Throws (Error ''Unexpected token in JSON at position 0'')
      | JsonObject members \<Rightarrow> Rejects)"

definition demo_jose :: "string jose" where
  "demo_jose =
     \<lparr> JSON_stringify = (\<lambda>p. p),
       createSign = demo_createSign,
       parseJWS = demo_parseJWS,
       verifySignature = demo_verifySignature,
       createEncrypt = demo_createEncrypt,
       createDecrypt = demo_createDecrypt,
       asKeyStore = demo_asKeyStore \<rparr>"

text \<open>
  One readable file \<^verbatim>\<open>client.json\<close>, one directory \<^verbatim>\<open>/etc\<close> (it exists and cannot be
  read as a file) and one reachable URL; everything else is neither.
\<close>

definition demo_io :: io where
  "demo_io =
     \<lparr> existsSync = (\<lambda>p. p = ''client.json'' \<or> p = ''/etc''),
       readFile = (\<lambda>p. if p = ''client.json'' then Inr ''client-jwks''
                        else Inl ''EISDIR: illegal operation on a directory, read''),
       request = (\<lambda>p. if p = ''https://hw.example/jwks''
                       then Some \<lparr> status = 200, body = None, resp_text = ''hw-jwks'' \<rparr>
                       else None) \<rparr>"

definition demo_this :: Encryption where
  "demo_this = new_Encryption ''client.json'' ''https://hw.example/jwks''"

definition demo_this_no_client :: Encryption where
  "demo_this_no_client = new_Encryption ''missing.json'' ''https://hw.example/jwks''"

definition demo_ready :: Encryption where
  "demo_ready =
     demo_this\<lparr> clientKeyStore := Some demo_client_keys, hwKeyStore := Some demo_hw_keys \<rparr>"

definition demo_es256_only :: Encryption where
  "demo_es256_only =
     demo_this\<lparr> clientKeyStore := Some demo_es256_keys, hwKeyStore := Some demo_es256_keys \<rparr>"

definition demo_jws :: string where
  "demo_jws = replicate 300 CHR ''I'' @ ''.S.{amount:100}''"

definition demo_jwe :: string where
  "demo_jwe = ''E.'' @ demo_jws"

text \<open>
  A base64url codec in the manner of \<^verbatim>\<open>jose.util.base64url\<close>: no padding, the URL-safe
  alphabet, a character outside the alphabet ignored, and a decoder that drops the bits
  left over at the end of a segment.
\<close>

definition base64url_alphabet :: string where
  "base64url_alphabet =
     ''ABCDEFGHIJKLMNOPQRSTUVWXYZabcdefghijklmnopqrstuvwxyz0123456789-_''"

fun sextets_encode :: "nat list \<Rightarrow> nat list" where
  "sextets_encode (a # b # c # rest) =
     [a div 4, (a mod 4) * 16 + b div 16, (b mod 16) * 4 + c div 64, c mod 64]
       @ sextets_encode rest"
| "sextets_encode [a, b] = [a div 4, (a mod 4) * 16 + b div 16, (b mod 16) * 4]"
| "sextets_encode [a] = [a div 4, (a mod 4) * 16]"
| "sextets_encode [] = []"

fun sextets_decode :: "nat list \<Rightarrow> nat list" where
  "sextets_decode (p # q # r # s # rest) =
     [p * 4 + q div 16, (q mod 16) * 16 + r div 4, (r mod 4) * 64 + s]
       @ sextets_decode rest"
| "sextets_decode [p, q, r] = [p * 4 + q div 16, (q mod 16) * 16 + r div 4]"
| "sextets_decode [p, q] = [p * 4 + q div 16]"
| "sextets_decode ps = []"

fun index_of :: "'a \<Rightarrow> 'a list \<Rightarrow> nat option" where
  "index_of x [] = None"
| "index_of x (y # ys) = (if x = y then Some 0 else map_option Suc (index_of x ys))"

definition demo_base64url_encode :: "buffer \<Rightarrow> string" where
  "demo_base64url_encode b = map (\<lambda>i. base64url_alphabet ! i) (sextets_encode (map unat b))"

definition demo_base64url_decode :: "string \<Rightarrow> buffer" where
  "demo_base64url_decode s =
     map of_nat (sextets_decode (List.map_filter (\<lambda>c. index_of c base64url_alphabet) s))"

section \<open>Properties\<close>

subsection \<open>Auxiliary facts\<close>

lemma Math_round_div:
  "Math_round (of_int n / of_int millisecondsInSecond) = (n + 500) div 1000"
proof -
  have "(of_int n / 1000 + 1 / 2 :: rat) = of_int (n + 500) / of_int 1000"
    by (simp add: field_simps)
  then have "\<lfloor>(of_int n / 1000 + 1 / 2 :: rat)\<rfloor> = (n + 500) div 1000"
    by (simp only: floor_divide_of_int_eq)
  then show ?thesis
    by (simp add: Math_round_def millisecondsInSecond_def)
qed

lemma join_split_dot: "join_dot (split_dot s) = s"
proof (induction s)
  case Nil
  show ?case by simp
next
  case (Cons c cs)
  then show ?case
    by (cases "split_dot cs"; cases "tl (split_dot cs)") (auto split: list.splits)
qed

lemma Buffer_roundtrip: "Buffer_from (Buffer_toJSON_data b) = b"
  by (simp add: Buffer_from_def Buffer_toJSON_data_def map_idI)

lemma split_dot_no_dot: "CHR ''.'' \<notin> set x \<Longrightarrow> split_dot x = [x]"
  by (induction x) auto

lemma split_dot_append_dot:
  "CHR ''.'' \<notin> set x \<Longrightarrow> split_dot (x @ CHR ''.'' # r) = x # split_dot r"
  by (induction x) auto

lemma split_join_dot:
  "segs \<noteq> [] \<Longrightarrow> \<forall>seg\<in>set segs. CHR ''.'' \<notin> set seg \<Longrightarrow> split_dot (join_dot segs) = segs"
proof (induction segs rule: join_dot.induct)
  case 1
  then show ?case by simp
next
  case (2 x)
  then show ?case by (simp add: split_dot_no_dot)
next
  case (3 x y ys)
  then show ?case by (simp add: split_dot_append_dot)
qed

lemma sextet_div:
  "(b::nat) < 256 \<Longrightarrow> (x * 16 + b div 16) div 16 = x"
  "(b::nat) < 256 \<Longrightarrow> (x * 16 + b div 16) mod 16 = b div 16"
  "(c::nat) < 256 \<Longrightarrow> (x * 4 + c div 64) div 4 = x"
  "(c::nat) < 256 \<Longrightarrow> (x * 4 + c div 64) mod 4 = c div 64"
  by simp_all

lemma sextet_bound:
  "(a::nat) < 256 \<Longrightarrow> a div 4 < 64"
  "(b::nat) < 256 \<Longrightarrow> (a mod 4) * 16 + b div 16 < 64"
  "(c::nat) < 256 \<Longrightarrow> (b mod 16) * 4 + c div 64 < 64"
  "(b mod 16) * 4 < 64"
  "(a mod 4) * 16 < 64"
proof -
  have m: "a mod 4 < 4" "b mod 16 < 16"
    by simp_all
  show "a < 256 \<Longrightarrow> a div 4 < 64"
    by simp
  show "(a mod 4) * 16 + b div 16 < 64" if "b < 256"
  proof -
    from that have "b div 16 < 16" by simp
    with m show ?thesis by linarith
  qed
  show "(b mod 16) * 4 + c div 64 < 64" if "c < 256"
  proof -
    from that have "c div 64 < 4" by simp
    with m show ?thesis by linarith
  qed
  show "(b mod 16) * 4 < 64"
    using m by linarith
  show "(a mod 4) * 16 < 64"
    using m by linarith
qed

lemma sextets_encode_lt:
  "\<forall>x\<in>set xs. x < 256 \<Longrightarrow> \<forall>y\<in>set (sextets_encode xs). y < 64"
  by (induction xs rule: sextets_encode.induct) (simp_all add: sextet_bound)

lemma sextet_eqs:
  "(a::nat) < 256 \<Longrightarrow> b < 256 \<Longrightarrow>
     a div 4 * 4 + ((a mod 4) * 16 + b div 16) div 16 = a"
  "(b::nat) < 256 \<Longrightarrow> c < 256 \<Longrightarrow>
     ((a mod 4) * 16 + b div 16) mod 16 * 16 + ((b mod 16) * 4 + c div 64) div 4 = b"
  "(c::nat) < 256 \<Longrightarrow> ((b mod 16) * 4 + c div 64) mod 4 * 64 + c mod 64 = c"
  "(b::nat) < 256 \<Longrightarrow>
     ((a mod 4) * 16 + b div 16) mod 16 * 16 + ((b mod 16) * 4) div 4 = b"
  "(a::nat) div 4 * 4 + ((a mod 4) * 16) div 16 = a"
  by (simp_all add: sextet_div)

lemma sextets_roundtrip:
  "\<forall>x\<in>set xs. x < 256 \<Longrightarrow> sextets_decode (sextets_encode xs) = xs"
proof (induction xs rule: sextets_encode.induct)
  case (1 a b c rest)
  then have lt: "a < 256" "b < 256" "c < 256"
    and ih: "sextets_decode (sextets_encode rest) = rest"
    by simp_all
  show ?case
    by (simp only: sextets_encode.simps sextets_decode.simps append_Cons append_Nil ih
        sextet_eqs(1)[OF lt(1,2)] sextet_eqs(2)[OF lt(2,3)] sextet_eqs(3)[OF lt(3)])
next
  case (2 a b)
  then have lt: "a < 256" "b < 256"
    by simp_all
  show ?case
    by (simp only: sextets_encode.simps sextets_decode.simps
        sextet_eqs(1)[OF lt] sextet_eqs(4)[OF lt(2)])
next
  case (3 a)
  show ?case
    by (simp only: sextets_encode.simps sextets_decode.simps sextet_eqs(5))
next
  case 4
  show ?case
    by simp
qed

lemma index_of_nth: "distinct xs \<Longrightarrow> i < length xs \<Longrightarrow> index_of (xs ! i) xs = Some i"
proof (induction xs arbitrary: i)
  case Nil
  then show ?case by simp
next
  case (Cons x xs)
  then show ?case by (cases i) auto
qed

lemma alphabet_facts:
  "distinct base64url_alphabet" "length base64url_alphabet = 64"
  "CHR ''.'' \<notin> set base64url_alphabet"
  by (simp_all add: base64url_alphabet_def)

lemma alphabet_lookup:
  "\<forall>y\<in>set ys. y < 64 \<Longrightarrow>
   List.map_filter (\<lambda>c. index_of c base64url_alphabet) (map (\<lambda>i. base64url_alphabet ! i) ys) = ys"
  by (induction ys) (simp_all add: List.map_filter_simps index_of_nth alphabet_facts)

lemma unat_byte_lt: "\<forall>x\<in>set (map unat (b :: buffer)). x < 256"
proof
  fix x assume "x \<in> set (map unat b)"
  then obtain w :: "8 word" where "x = unat w" by auto
  moreover have "unat w < 2 ^ LENGTH(8)" by (rule unsigned_less)
  ultimately show "x < 256" by simp
qed

lemma demo_base64url_decode_encode: "demo_base64url_decode (demo_base64url_encode b) = b"
proof -
  let ?xs = "map unat b"
  have lt: "\<forall>y\<in>set (sextets_encode ?xs). y < 64"
    by (rule sextets_encode_lt[OF unat_byte_lt])
  have "List.map_filter (\<lambda>c. index_of c base64url_alphabet)
          (map (\<lambda>i. base64url_alphabet ! i) (sextets_encode ?xs)) = sextets_encode ?xs"
    by (rule alphabet_lookup[OF lt])
  then have "demo_base64url_decode (demo_base64url_encode b) =
      map of_nat (sextets_decode (sextets_encode ?xs))"
    by (simp only: demo_base64url_decode_def demo_base64url_encode_def)
  also have "\<dots> = map of_nat ?xs"
    by (simp only: sextets_roundtrip[OF unat_byte_lt])
  also have "\<dots> = b"
    by (simp add: map_idI)
  finally show ?thesis .
qed

lemma demo_base64url_encode_no_dot: "CHR ''.'' \<notin> set (demo_base64url_encode b)"
proof
  assume "CHR ''.'' \<in> set (demo_base64url_encode b)"
  then obtain i where "i \<in> set (sextets_encode (map unat b))" "CHR ''.'' = base64url_alphabet ! i"
    by (auto simp: demo_base64url_encode_def)
  moreover from this sextets_encode_lt[OF unat_byte_lt, of b] have "i < length base64url_alphabet"
    by (auto simp: alphabet_facts)
  ultimately have "CHR ''.'' \<in> set base64url_alphabet"
    by (metis nth_mem)
  then show False by (simp add: alphabet_facts)
qed

lemma first_eq_None: "(first xs = None) = (xs = [])"
  by (cases xs) (simp_all add: first_def)

lemma first_eq_Some: "first xs = Some x \<Longrightarrow> x \<in> set xs"
  by (cases xs) (simp_all add: first_def)

lemma first_all_none:
  "(first (KeyStore_all ks a) = None) = (\<forall>k\<in>set ks. alg k \<noteq> a)"
  by (simp add: first_eq_None KeyStore_all_def filter_empty_conv)

lemma first_all_some:
  "ks = pre @ k # post \<Longrightarrow> alg k = a \<Longrightarrow> \<forall>j\<in>set pre. alg j \<noteq> a
     \<Longrightarrow> first (KeyStore_all ks a) = Some k"
  by (simp add: first_def KeyStore_all_def filter_empty_conv[THEN iffD2])

lemma first_all_alg: "first (KeyStore_all ks a) = Some k \<Longrightarrow> alg k = a"
  by (drule first_eq_Some) (simp add: KeyStore_all_def)

lemma WrongLocation_carries: "sublist p (message (WrongLocation p))"
proof -
  have "sublist p (''Wrong JWK set location path = '' @ p @ [])"
    by (rule sublist_appendI)
  then show ?thesis
    by (simp only: WrongLocation_def error.sel append_Nil2)
qed

lemma error_distinct:
  "AlgorithmNotProvisioned a \<noteq> SigningFailed x"
  "AlgorithmNotProvisioned a \<noteq> EncryptionFailed x"
  "AlgorithmNotProvisioned a \<noteq> DecryptionFailed x"
  "AlgorithmNotProvisioned a \<noteq> SignatureInvalid x"
  "AlgorithmNotProvisioned a \<noteq> SignatureExpired"
  "SignatureExpired \<noteq> SignatureInvalid x"
  by (simp_all add: AlgorithmNotProvisioned_def SigningFailed_def EncryptionFailed_def
      DecryptionFailed_def SignatureInvalid_def SignatureExpired_def)

lemma AlgorithmNotProvisioned_names:
  "message (AlgorithmNotProvisioned a) =
     ''JWK set doesn'' @ [CHR 0x27] @ ''t contain key with algorithm = '' @ a"
  "sublist a (message (AlgorithmNotProvisioned a))"
  "(AlgorithmNotProvisioned a = AlgorithmNotProvisioned a') = (a = a')"
proof -
  show m: "message (AlgorithmNotProvisioned a) =
     ''JWK set doesn'' @ [CHR 0x27] @ ''t contain key with algorithm = '' @ a"
    by (simp add: AlgorithmNotProvisioned_def)
  have "sublist a ((''JWK set doesn'' @ [CHR 0x27] @ ''t contain key with algorithm = '') @ a @ [])"
    by (rule sublist_appendI)
  then show "sublist a (message (AlgorithmNotProvisioned a))"
    by (simp only: m append_Nil2 append_assoc)
  show "(AlgorithmNotProvisioned a = AlgorithmNotProvisioned a') = (a = a')"
    by (simp add: AlgorithmNotProvisioned_def)
qed

lemma readKeySet_trace:
  "snd (readKeySet sys p) = [ExistsSync p, if existsSync sys p then ReadFile p else HttpGet p]"
  by (simp add: readKeySet_def)

lemma readKeySet_settles: "fst (readKeySet sys p) \<noteq> Pending"
  by (simp add: readKeySet_def split: sum.splits option.splits)

lemma fetch_count_readKeySet:
  "fetch_count st (map (Pair st') (snd (readKeySet sys p))) = (if st' = st then 1 else 0)"
  by (simp add: readKeySet_trace fetch_count_def)

lemma fetch_count_append: "fetch_count st (xs @ ys) = fetch_count st xs + fetch_count st ys"
  by (simp add: fetch_count_def)

lemma createKeyStore_trace_hw:
  "fst (readKeySet sys (hyperwalletKeySetLocation this)) = Rejected e \<Longrightarrow>
   createKeyStore lib sys this =
     (Rejected e, this, map (Pair HyperwalletStore) (snd (readKeySet sys (hyperwalletKeySetLocation this))))"
  by (simp add: createKeyStore_def Let_def case_prod_beta)

lemma createKeyStore_hw_parsed:
  assumes "fst (readKeySet sys (hyperwalletKeySetLocation this)) = Resolved d1"
      and "asKeyStore lib d1 = Fulfils hks"
  shows "createKeyStore lib sys this =
     (case fst (readKeySet sys (clientPrivateKeySetLocation this)) of
        Pending \<Rightarrow> Pending
      | Rejected e \<Rightarrow> Rejected e
      | Resolved d2 \<Rightarrow>
          (case asKeyStore lib d2 of
             Fulfils cks \<Rightarrow> Resolved ()
           | Rejects \<Rightarrow> Rejected MalformedKeySet
           | Throws e \<Rightarrow> Rejected e),
      (case fst (readKeySet sys (clientPrivateKeySetLocation this)) of
        Resolved d2 \<Rightarrow>
          (case asKeyStore lib d2 of
             Fulfils cks \<Rightarrow> this\<lparr>hwKeyStore := Some hks, clientKeyStore := Some cks\<rparr>
           | _ \<Rightarrow> this\<lparr>hwKeyStore := Some hks\<rparr>)
      | _ \<Rightarrow> this\<lparr>hwKeyStore := Some hks\<rparr>),
      map (Pair HyperwalletStore) (snd (readKeySet sys (hyperwalletKeySetLocation this))) @
      map (Pair ClientStore) (snd (readKeySet sys (clientPrivateKeySetLocation this))))"
  using assms
  by (simp add: createKeyStore_def Let_def case_prod_beta split: promise.splits call.splits)

lemma createKeyStore_resolved:
  assumes "fst (createKeyStore lib sys this) = Resolved u"
  shows "\<exists>hks cks. snd (createKeyStore lib sys this) =
           (this\<lparr>hwKeyStore := Some hks, clientKeyStore := Some cks\<rparr>,
            map (Pair HyperwalletStore) (snd (readKeySet sys (hyperwalletKeySetLocation this))) @
            map (Pair ClientStore) (snd (readKeySet sys (clientPrivateKeySetLocation this))))"
  using assms
  by (auto simp: createKeyStore_def Let_def case_prod_beta split: promise.splits call.splits)

lemma encrypt_ready:
  "clientKeyStore this = Some cks \<Longrightarrow> hwKeyStore this = Some hks \<Longrightarrow>
   encrypt lib sys now this P =
     (case signBody lib now this P of
        Pending \<Rightarrow> Pending
      | Rejected e \<Rightarrow> Rejected e
      | Resolved signedBody \<Rightarrow> encryptBody lib this signedBody, this, [])"
  by (simp add: encrypt_def split: promise.splits)

lemma decrypt_ready:
  "hwKeyStore this = Some hks \<Longrightarrow>
   decrypt lib sys now this b =
     (case decryptBody lib this b of
        Pending \<Rightarrow> Pending
      | Rejected e \<Rightarrow> Rejected e
      | Resolved plaintext \<Rightarrow> checkSignature lib now this plaintext, this, [])"
  by (simp add: decrypt_def split: promise.splits)

lemma encrypt_resolved:
  assumes "fst (encrypt lib sys now this P) = Resolved c"
  shows "clientKeyStore (fst (snd (encrypt lib sys now this P))) \<noteq> None \<and>
         hwKeyStore (fst (snd (encrypt lib sys now this P))) \<noteq> None \<and>
         fetch_count st (snd (snd (encrypt lib sys now this P))) \<le> 1"
proof (cases "clientKeyStore this \<noteq> None \<and> hwKeyStore this \<noteq> None")
  case True
  then show ?thesis
    by (auto simp: encrypt_ready fetch_count_def)
next
  case False
  with assms have r: "fst (createKeyStore lib sys this) = Resolved ()"
    by (auto simp: encrypt_def case_prod_beta split: promise.splits if_splits)
  from createKeyStore_resolved[OF r] obtain hks cks where
    s: "snd (createKeyStore lib sys this) =
           (this\<lparr>hwKeyStore := Some hks, clientKeyStore := Some cks\<rparr>,
            map (Pair HyperwalletStore) (snd (readKeySet sys (hyperwalletKeySetLocation this))) @
            map (Pair ClientStore) (snd (readKeySet sys (clientPrivateKeySetLocation this))))"
    by blast
  have e: "snd (encrypt lib sys now this P) = snd (createKeyStore lib sys this)"
    using False r by (auto simp: encrypt_def case_prod_beta split: promise.splits)
  show ?thesis
    by (simp add: e s fetch_count_append fetch_count_readKeySet)
qed

lemma ensure_loadable:
  assumes "loadable_keySets lib sys this = Some (cks, hks)"
  shows "\<exists>tr. (if clientKeyStore this \<noteq> None \<and> hwKeyStore this \<noteq> None
               then (Resolved (), this, [])
               else createKeyStore lib sys this) =
              (Resolved (), this\<lparr>hwKeyStore := Some hks, clientKeyStore := Some cks\<rparr>, tr)"
proof (cases "clientKeyStore this \<noteq> None \<and> hwKeyStore this \<noteq> None")
  case True
  with assms have "clientKeyStore this = Some cks" "hwKeyStore this = Some hks"
    by (auto simp: loadable_keySets_def)
  then have "this\<lparr>hwKeyStore := Some hks, clientKeyStore := Some cks\<rparr> = this"
    by (cases this) simp
  with True show ?thesis by simp
next
  case False
  with assms obtain d1 d2 where
    "fst (readKeySet sys (hyperwalletKeySetLocation this)) = Resolved d1"
    "asKeyStore lib d1 = Fulfils hks"
    "fst (readKeySet sys (clientPrivateKeySetLocation this)) = Resolved d2"
    "asKeyStore lib d2 = Fulfils cks"
    by (auto simp: loadable_keySets_def split: option.splits promise.splits call.splits)
  then show ?thesis
    using False by (auto simp add: createKeyStore_hw_parsed)
qed

subsection \<open>The guard of decrypt\<close>

text \<open>
  Claim C2 says that every \<^verbatim>\<open>decrypt\<close> call populates the client key store before the
  ciphertext is decrypted, also when only the hyperwallet store is there. The guard of
  \<^verbatim>\<open>decrypt\<close> tests \<^verbatim>\<open>this.hwKeyStore\<close> alone, where that of \<^verbatim>\<open>encrypt\<close> tests both stores.
  On an object whose hyperwallet store is populated and whose client store is absent,
  \<^verbatim>\<open>decrypt\<close> therefore creates nothing and fetches nothing, \<^verbatim>\<open>decryptBody\<close> reads
  \<^verbatim>\<open>this.clientKeyStore.all\<close> on the absent store, and the promise never settles. An
  object gets there by an \<^verbatim>\<open>encrypt\<close> call that loads the hyperwallet key set and cannot
  read the client key set.
\<close>

theorem decrypt_client_store_unchecked:
  "decrypt lib sys now (this\<lparr>clientKeyStore := None, hwKeyStore := Some hks\<rparr>) b =
     (Pending, this\<lparr>clientKeyStore := None, hwKeyStore := Some hks\<rparr>, []) \<and>
   fst (encrypt demo_jose demo_io 0 demo_this_no_client ''{amount:100}'') =
     Rejected (WrongLocation ''missing.json'') \<and>
   clientKeyStore (fst (snd (encrypt demo_jose demo_io 0 demo_this_no_client ''{amount:100}''))) =
     None \<and>
   hwKeyStore (fst (snd (encrypt demo_jose demo_io 0 demo_this_no_client ''{amount:100}''))) =
     Some demo_hw_keys \<and>
   decrypt demo_jose demo_io 0
       (fst (snd (encrypt demo_jose demo_io 0 demo_this_no_client ''{amount:100}''))) demo_jwe =
     (Pending, fst (snd (encrypt demo_jose demo_io 0 demo_this_no_client ''{amount:100}'')), [])"
proof -
  have g: "decrypt lib sys now (this\<lparr>clientKeyStore := None, hwKeyStore := Some hks\<rparr>) b =
     (Pending, this\<lparr>clientKeyStore := None, hwKeyStore := Some hks\<rparr>, [])"
    by (simp add: decrypt_def decryptBody_def)
  have c: "fst (encrypt demo_jose demo_io 0 demo_this_no_client ''{amount:100}'') =
     Rejected (WrongLocation ''missing.json'') \<and>
   clientKeyStore (fst (snd (encrypt demo_jose demo_io 0 demo_this_no_client ''{amount:100}''))) =
     None \<and>
   hwKeyStore (fst (snd (encrypt demo_jose demo_io 0 demo_this_no_client ''{amount:100}''))) =
     Some demo_hw_keys \<and>
   decrypt demo_jose demo_io 0
       (fst (snd (encrypt demo_jose demo_io 0 demo_this_no_client ''{amount:100}''))) demo_jwe =
     (Pending, fst (snd (encrypt demo_jose demo_io 0 demo_this_no_client ''{amount:100}'')), [])"
    by code_simp
  show ?thesis
    using g c by blast
qed

subsection \<open>The expiry stamp of a signature\<close>

text \<open>
  Claim C7: for a validity window of \<open>m\<close> minutes, \<^verbatim>\<open>getSignatureExpirationTime\<close> returns
  \<open>round ((now + m * 60000) / 1000)\<close>, an integer number of seconds (in integer
  arithmetic \<open>(now + m * 60000 + 500) div 1000\<close>), and \<^verbatim>\<open>signBody\<close> signs under a
  protected header whose \<^verbatim>\<open>exp\<close> is exactly this value, whose \<^verbatim>\<open>crit\<close> is \<^verbatim>\<open>['exp']\<close>, and
  which carries the signing algorithm and the key id of the selected key.
\<close>

theorem signature_expiration_time:
  "getSignatureExpirationTime this now =
     round ((of_int now + of_int (jwsExpirationMinutes this) * 60000) / 1000 :: rat) \<and>
   getSignatureExpirationTime this now =
     (now + jwsExpirationMinutes this * 60000 + 500) div 1000 \<and>
   (clientKeyStore this = Some ks \<and> first (KeyStore_all ks (signAlgorithm this)) = Some k \<longrightarrow>
      signBody lib now this P =
        (case createSign lib
                \<lparr> sh_format = ''compact'', sh_alg = signAlgorithm this, sh_crit = [''exp''],
                  sh_exp = round ((of_int now + of_int (jwsExpirationMinutes this) * 60000)
                                    / 1000 :: rat),
                  sh_kid = kid k \<rparr>
                k (JSON_stringify lib P) of
           Some v \<Rightarrow> Resolved v
         | None \<Rightarrow> Rejected (SigningFailed (kid k))))"
proof -
  have r: "getSignatureExpirationTime this now =
     round ((of_int now + of_int (jwsExpirationMinutes this) * 60000) / 1000 :: rat)"
    by (simp add: getSignatureExpirationTime_def Math_round_def round_def
        millisecondsInMinute_def millisecondsInSecond_def)
  have d: "getSignatureExpirationTime this now =
     (now + jwsExpirationMinutes this * 60000 + 500) div 1000"
    by (simp add: getSignatureExpirationTime_def Math_round_div millisecondsInMinute_def Let_def)
  have s: "signBody lib now this P =
        (case createSign lib
                \<lparr> sh_format = ''compact'', sh_alg = signAlgorithm this, sh_crit = [''exp''],
                  sh_exp = round ((of_int now + of_int (jwsExpirationMinutes this) * 60000)
                                    / 1000 :: rat),
                  sh_kid = kid k \<rparr>
                k (JSON_stringify lib P) of
           Some v \<Rightarrow> Resolved v
         | None \<Rightarrow> Rejected (SigningFailed (kid k)))"
    if "clientKeyStore this = Some ks" "first (KeyStore_all ks (signAlgorithm this)) = Some k"
    using that first_all_alg[OF that(2)]
    by (simp add: signBody_def signHeader_of_def r[symmetric] split: option.splits)
  show ?thesis
    using r d s by blast
qed

text \<open>
  The statement at the toy instance: at the epoch and with the default window of five
  minutes the first \<^verbatim>\<open>RS256\<close> key of the client store signs with \<^verbatim>\<open>exp\<close> = 300.
\<close>

theorem signature_expiration_time_witness:
  "clientKeyStore demo_ready = Some demo_client_keys \<and>
   first (KeyStore_all demo_client_keys (signAlgorithm demo_ready)) =
     Some demo_client_sig \<and>
   getSignatureExpirationTime demo_ready 0 =
     (0 + jwsExpirationMinutes demo_ready * 60000 + 500) div 1000 \<and>
   signBody demo_jose 0 demo_ready ''{amount:100}'' =
     (case createSign demo_jose
             \<lparr> sh_format = ''compact'', sh_alg = signAlgorithm demo_ready, sh_crit = [''exp''],
               sh_exp = round ((of_int 0 + of_int (jwsExpirationMinutes demo_ready) * 60000)
                                 / 1000 :: rat),
               sh_kid = kid demo_client_sig \<rparr>
             demo_client_sig
             (JSON_stringify demo_jose ''{amount:100}'') of
        Some v \<Rightarrow> Resolved v
      | None \<Rightarrow>
          Rejected (SigningFailed (kid demo_client_sig)))"
proof -
  have h1: "clientKeyStore demo_ready = Some demo_client_keys"
    by code_simp
  have h2: "first (KeyStore_all demo_client_keys (signAlgorithm demo_ready)) =
     Some demo_client_sig"
    by code_simp
  note t = signature_expiration_time[of demo_ready 0 demo_client_keys
      "demo_client_sig" demo_jose "''{amount:100}''"]
  show ?thesis
    using h1 h2 t by blast
qed

subsection \<open>Resolving a key-set location\<close>

text \<open>
  Claim C8, amended: \<^verbatim>\<open>readKeySet\<close> always asks the file system first whether the
  location exists. For a location \<open>p\<close> that exists it then reads the file and makes no
  network request. For a location \<open>u\<close> that does not exist (a URL) it makes one GET
  request, and its only access to the file system is that one existence probe: it reads
  no file.
\<close>

theorem readKeySet_events:
  "(existsSync sys p \<longrightarrow>
      snd (readKeySet sys p) = [ExistsSync p, ReadFile p] \<and>
      \<not> list_ex is_network_request (snd (readKeySet sys p))) \<and>
   (\<not> existsSync sys u \<longrightarrow>
      snd (readKeySet sys u) = [ExistsSync u, HttpGet u] \<and>
      filter is_filesystem_access (snd (readKeySet sys u)) = [ExistsSync u])"
  by (simp add: readKeySet_def)

theorem readKeySet_events_witness:
  "existsSync demo_io ''client.json'' \<and>
   \<not> existsSync demo_io ''https://hw.example/jwks'' \<and>
   snd (readKeySet demo_io ''client.json'') =
     [ExistsSync ''client.json'', ReadFile ''client.json''] \<and>
   \<not> list_ex is_network_request (snd (readKeySet demo_io ''client.json'')) \<and>
   snd (readKeySet demo_io ''https://hw.example/jwks'') =
     [ExistsSync ''https://hw.example/jwks'', HttpGet ''https://hw.example/jwks''] \<and>
   filter is_filesystem_access (snd (readKeySet demo_io ''https://hw.example/jwks'')) =
     [ExistsSync ''https://hw.example/jwks'']"
proof -
  have h1: "existsSync demo_io ''client.json''"
    by code_simp
  have h2: "\<not> existsSync demo_io ''https://hw.example/jwks''"
    by code_simp
  note t = readKeySet_events[of demo_io "''client.json''" "''https://hw.example/jwks''"]
  show ?thesis
    using h1 h2 t by blast
qed

text \<open>
  The claim as it stands fails on a URL: resolving it does touch the file system.
\<close>

theorem readKeySet_url_probe_counterexample:
  "\<not> existsSync demo_io ''https://hw.example/jwks'' \<and>
   list_ex is_filesystem_access (snd (readKeySet demo_io ''https://hw.example/jwks''))"
  by code_simp

subsection \<open>The error of a key-set location that cannot be read\<close>

text \<open>
  Claim C6, amended: when \<^verbatim>\<open>readKeySet\<close> fails on a location that does not exist as a
  file (the GET request is rejected), the error is
  \<^verbatim>\<open>Wrong JWK set location path = <location>\<close> and carries the location string. When
  the location exists as a file and reading it fails, the error is the message of the
  file system's error, unchanged.
\<close>

theorem readKeySet_error:
  assumes "fst (readKeySet sys p) = Rejected e"
  shows "if existsSync sys p then readFile sys p = Inl (message e)
         else e = WrongLocation p \<and> sublist p (message e)"
proof (cases "existsSync sys p")
  case True
  with assms show ?thesis
    by (auto simp: readKeySet_def split: sum.splits)
next
  case False
  with assms have "e = WrongLocation p"
    by (auto simp: readKeySet_def split: option.splits)
  with False show ?thesis
    by (simp add: WrongLocation_carries)
qed

theorem readKeySet_error_witness:
  "fst (readKeySet demo_io ''missing.json'') = Rejected (WrongLocation ''missing.json'') \<and>
   (if existsSync demo_io ''missing.json''
    then readFile demo_io ''missing.json'' = Inl (message (WrongLocation ''missing.json''))
    else WrongLocation ''missing.json'' = WrongLocation ''missing.json'' \<and>
         sublist ''missing.json'' (message (WrongLocation ''missing.json'')))"
proof -
  have h: "fst (readKeySet demo_io ''missing.json'') = Rejected (WrongLocation ''missing.json'')"
    by code_simp
  show ?thesis
    using h readKeySet_error[OF h] by blast
qed

text \<open>
  The claim as it stands fails on a directory: it exists, reading it fails, and the
  error does not carry the location.
\<close>

theorem readKeySet_error_counterexample:
  "existsSync demo_io ''/etc'' \<and>
   fst (readKeySet demo_io ''/etc'') =
     Rejected (Error ''EISDIR: illegal operation on a directory, read'') \<and>
   \<not> sublist ''/etc'' ''EISDIR: illegal operation on a directory, read''"
  by code_simp

subsection \<open>The segment-wise base64url helpers\<close>

text \<open>
  Claim C10, amended: with a base64url codec that decodes what it encodes and never
  emits a dot, on every compact envelope that is made of the encodings of one or more
  byte buffers joined by dots, \<^verbatim>\<open>base64Decode\<close> returns one decoded buffer per segment
  in segment order (the buffers that were encoded), \<^verbatim>\<open>base64Encode\<close> encodes each part
  again and joins them with dots, and \<^verbatim>\<open>base64Encode(base64Decode(s))\<close> is the envelope
  itself.
\<close>

theorem base64_roundtrip:
  assumes "\<forall>b. dec (enc b) = b"
      and "\<forall>b. CHR ''.'' \<notin> set (enc b)"
      and "bs \<noteq> []"
  shows "split_dot (join_dot (map enc bs)) = map enc bs \<and>
         parts (base64Decode dec (join_dot (map enc bs))) = bs \<and>
         length (parts (base64Decode dec (join_dot (map enc bs)))) =
           length (split_dot (join_dot (map enc bs))) \<and>
         base64Encode enc (base64Decode dec (join_dot (map enc bs))) = join_dot (map enc bs)"
proof -
  have s: "split_dot (join_dot (map enc bs)) = map enc bs"
    using assms by (intro split_join_dot) auto
  show ?thesis
    using assms(1)
    by (simp add: base64Decode_def base64Encode_def s Buffer_roundtrip comp_def map_idI)
qed

text \<open>
  The codec above decodes what it encodes and never emits a dot; the statement on an
  envelope of three segments, the second one empty.
\<close>

theorem base64_roundtrip_witness:
  "(\<forall>b. demo_base64url_decode (demo_base64url_encode b) = b) \<and>
   (\<forall>b. CHR ''.'' \<notin> set (demo_base64url_encode b)) \<and>
   [[1, 2, 3], [], [251, 255 :: 8 word]] \<noteq> [] \<and>
   join_dot (map demo_base64url_encode [[1, 2, 3], [], [251, 255]]) = ''AQID..-_8'' \<and>
   split_dot ''AQID..-_8'' = map demo_base64url_encode [[1, 2, 3], [], [251, 255]] \<and>
   parts (base64Decode demo_base64url_decode ''AQID..-_8'') = [[1, 2, 3], [], [251, 255]] \<and>
   base64Encode demo_base64url_encode (base64Decode demo_base64url_decode ''AQID..-_8'') =
     ''AQID..-_8''"
proof -
  have h1: "\<forall>b. demo_base64url_decode (demo_base64url_encode b) = b"
    by (simp add: demo_base64url_decode_encode)
  have h2: "\<forall>b. CHR ''.'' \<notin> set (demo_base64url_encode b)"
    by (simp add: demo_base64url_encode_no_dot)
  have h3: "[[1, 2, 3], [], [251, 255 :: 8 word]] \<noteq> []"
    by simp
  have j: "join_dot (map demo_base64url_encode [[1, 2, 3], [], [251, 255]]) = ''AQID..-_8''"
    by code_simp
  note t = base64_roundtrip[OF h1 h2 h3, unfolded j]
  show ?thesis
    using h1 h2 h3 j t by blast
qed

text \<open>
  The claim as it stands fails on a segment over the base64url alphabet that is not the
  encoding of a byte buffer: \<^verbatim>\<open>AR\<close> decodes to the one byte 1, whose encoding is \<^verbatim>\<open>AQ\<close>.
\<close>

theorem base64_noncanonical_counterexample:
  "list_all (\<lambda>c. c \<in> set base64url_alphabet) ''AR'' \<and>
   split_dot ''AR'' = [''AR''] \<and>
   parts (base64Decode demo_base64url_decode ''AR'') = [[1]] \<and>
   base64Encode demo_base64url_encode (base64Decode demo_base64url_decode ''AR'') = ''AQ''"
  by code_simp

subsection \<open>The two gates of signature verification\<close>

text \<open>
  Claim C3: with a verification key in the hyperwallet store and a token that parses to a
  protected header with \<^verbatim>\<open>exp\<close> = \<open>e\<close>, \<^verbatim>\<open>checkSignature\<close> rejects with the expiry error
  exactly when \<open>e\<close> is strictly less than the current time in seconds (\<open>e\<close> equal to it is
  accepted). An expired token is rejected with the expiry error whether or not its
  signature verifies; a token that is not expired and whose signature does not verify is
  rejected with the verification error of the key; the two errors differ.
\<close>

theorem checkSignature_gates:
  assumes "hwKeyStore this = Some ks"
      and "first (KeyStore_all ks (signAlgorithm this)) = Some k"
      and "parseJWS lib b = Fulfils h"
      and "jh_exp h = Some e"
  shows "(checkSignature lib now this b = Rejected SignatureExpired) = (e < getCurrentTime now) \<and>
         checkSignature lib now this b =
           (if e < getCurrentTime now then Rejected SignatureExpired
            else case verifySignature lib k b of
                   Some r \<Rightarrow> Resolved r
                 | None \<Rightarrow> Rejected (SignatureInvalid (kid k))) \<and>
         SignatureExpired \<noteq> SignatureInvalid (kid k) \<and>
         getCurrentTime now = (now + 500) div 1000"
proof -
  have c: "checkSignature lib now this b =
           (if e < getCurrentTime now then Rejected SignatureExpired
            else case verifySignature lib k b of
                   Some r \<Rightarrow> Resolved r
                 | None \<Rightarrow> Rejected (SignatureInvalid (kid k)))"
    using assms by (simp add: checkSignature_def exp_handler_def split: option.splits)
  have d: "SignatureExpired \<noteq> SignatureInvalid (kid k)"
    by (rule error_distinct)
  have i: "(checkSignature lib now this b = Rejected SignatureExpired) = (e < getCurrentTime now)"
    using d by (simp add: c split: option.splits)
  show ?thesis
    using c d i by (simp add: getCurrentTime_def Math_round_div)
qed

text \<open>
  The statement at the boundary: a token with \<^verbatim>\<open>exp\<close> = 300 checked when the clock shows
  300000 ms is accepted.
\<close>

theorem checkSignature_gates_witness:
  "hwKeyStore demo_ready = Some demo_hw_keys \<and>
   first (KeyStore_all demo_hw_keys (signAlgorithm demo_ready)) = Some demo_hw_sig \<and>
   parseJWS demo_jose demo_jws =
     Fulfils \<lparr> jh_alg = ''RS256'', jh_kid = ''hw-sig'', jh_exp = Some 300 \<rparr> \<and>
   jh_exp \<lparr> jh_alg = ''RS256'', jh_kid = ''hw-sig'', jh_exp = Some 300 \<rparr> = Some 300 \<and>
   (checkSignature demo_jose 300000 demo_ready demo_jws = Rejected SignatureExpired) =
     (300 < getCurrentTime 300000) \<and>
   checkSignature demo_jose 300000 demo_ready demo_jws =
     (if 300 < getCurrentTime 300000 then Rejected SignatureExpired
      else case verifySignature demo_jose demo_hw_sig demo_jws of
             Some r \<Rightarrow> Resolved r
           | None \<Rightarrow> Rejected (SignatureInvalid (kid demo_hw_sig))) \<and>
   getCurrentTime 300000 = (300000 + 500) div 1000"
proof -
  have h1: "hwKeyStore demo_ready = Some demo_hw_keys"
    by code_simp
  have h2: "first (KeyStore_all demo_hw_keys (signAlgorithm demo_ready)) = Some demo_hw_sig"
    by code_simp
  have h3: "parseJWS demo_jose demo_jws =
     Fulfils \<lparr> jh_alg = ''RS256'', jh_kid = ''hw-sig'', jh_exp = Some 300 \<rparr>"
    by code_simp
  have h4: "jh_exp \<lparr> jh_alg = ''RS256'', jh_kid = ''hw-sig'', jh_exp = Some 300 \<rparr> = Some 300"
    by simp
  note t = checkSignature_gates[OF h1 h2 h3 h4, of 300000]
  show ?thesis
    using h1 h2 h3 h4 t by blast
qed

subsection \<open>Key selection by algorithm\<close>

text \<open>
  Claim C5: each of \<^verbatim>\<open>signBody\<close>, \<^verbatim>\<open>encryptBody\<close>, \<^verbatim>\<open>decryptBody\<close> and \<^verbatim>\<open>checkSignature\<close>,
  on a key store that holds no key whose algorithm attribute equals the required
  algorithm, fails with the error of an algorithm that is not provisioned. That error
  names the algorithm: its message is \<^verbatim>\<open>JWK set doesn't contain key with algorithm = \<close>
  followed by the algorithm, so it contains the algorithm, it differs for different
  algorithms, and it is none of the errors of the cryptographic operations. When the
  store holds such a key, the first one in document order (the key \<open>k\<close> of a store
  \<open>pre @ k # post\<close> where no key of \<open>pre\<close> has the algorithm) is the key the operation
  runs with.
\<close>

theorem key_lookup_by_algorithm:
  "(clientKeyStore this0 = Some cks0 \<and> (\<forall>k\<in>set cks0. alg k \<noteq> signAlgorithm this0) \<longrightarrow>
      signBody lib now this0 P = Rejected (AlgorithmNotProvisioned (signAlgorithm this0))) \<and>
   (hwKeyStore this0 = Some hks0 \<and> (\<forall>k\<in>set hks0. alg k \<noteq> encryptionAlgorithm this0) \<longrightarrow>
      encryptBody lib this0 b = Rejected (AlgorithmNotProvisioned (encryptionAlgorithm this0))) \<and>
   (clientKeyStore this0 = Some cks0 \<and> (\<forall>k\<in>set cks0. alg k \<noteq> encryptionAlgorithm this0) \<longrightarrow>
      decryptBody lib this0 b = Rejected (AlgorithmNotProvisioned (encryptionAlgorithm this0))) \<and>
   (hwKeyStore this0 = Some hks0 \<and> (\<forall>k\<in>set hks0. alg k \<noteq> signAlgorithm this0) \<longrightarrow>
      checkSignature lib now this0 b = Rejected (AlgorithmNotProvisioned (signAlgorithm this0))) \<and>
   message (AlgorithmNotProvisioned a) =
     ''JWK set doesn'' @ [CHR 0x27] @ ''t contain key with algorithm = '' @ a \<and>
   sublist a (message (AlgorithmNotProvisioned a)) \<and>
   (AlgorithmNotProvisioned a = AlgorithmNotProvisioned a') = (a = a') \<and>
   AlgorithmNotProvisioned a \<noteq> SigningFailed x \<and>
   AlgorithmNotProvisioned a \<noteq> EncryptionFailed x \<and>
   AlgorithmNotProvisioned a \<noteq> DecryptionFailed x \<and>
   AlgorithmNotProvisioned a \<noteq> SignatureInvalid x \<and>
   AlgorithmNotProvisioned a \<noteq> SignatureExpired \<and>
   (clientKeyStore this = Some (pre1 @ sk # post1) \<and> alg sk = signAlgorithm this \<and>
    (\<forall>j\<in>set pre1. alg j \<noteq> signAlgorithm this) \<longrightarrow>
      signBody lib now this P =
        (case createSign lib (signHeader_of this now sk) sk (JSON_stringify lib P) of
           Some v \<Rightarrow> Resolved v
         | None \<Rightarrow> Rejected (SigningFailed (kid sk)))) \<and>
   (hwKeyStore this = Some (pre2 @ ek # post2) \<and> alg ek = encryptionAlgorithm this \<and>
    (\<forall>j\<in>set pre2. alg j \<noteq> encryptionAlgorithm this) \<longrightarrow>
      encryptBody lib this b =
        (case createEncrypt lib (encryptionHeader_of this ek) ek b of
           Some v \<Rightarrow> Resolved v
         | None \<Rightarrow> Rejected (EncryptionFailed (kid ek)))) \<and>
   (clientKeyStore this = Some (pre3 @ dk # post3) \<and> alg dk = encryptionAlgorithm this \<and>
    (\<forall>j\<in>set pre3. alg j \<noteq> encryptionAlgorithm this) \<longrightarrow>
      decryptBody lib this b =
        (case createDecrypt lib dk b of
           Some plaintext \<Rightarrow> Resolved plaintext
         | None \<Rightarrow> Rejected (DecryptionFailed (kid dk)))) \<and>
   (hwKeyStore this = Some (pre4 @ vk # post4) \<and> alg vk = signAlgorithm this \<and>
    (\<forall>j\<in>set pre4. alg j \<noteq> signAlgorithm this) \<longrightarrow>
      checkSignature lib now this b =
        (case parseJWS lib b of
           Throws e \<Rightarrow> Rejected e
         | Rejects \<Rightarrow> Rejected (SignatureInvalid (kid vk))
         | Fulfils h \<Rightarrow>
             (case verifySignature lib vk b of
                Some r \<Rightarrow> resolve r (exp_handler now h Pending)
              | None \<Rightarrow> reject (SignatureInvalid (kid vk)) (exp_handler now h Pending))))"
proof -
  have a1: "signBody lib now this0 P = Rejected (AlgorithmNotProvisioned (signAlgorithm this0))"
    if "clientKeyStore this0 = Some cks0" "\<forall>k\<in>set cks0. alg k \<noteq> signAlgorithm this0"
    using that by (simp add: signBody_def first_all_none[THEN iffD2])
  have a2: "encryptBody lib this0 b = Rejected (AlgorithmNotProvisioned (encryptionAlgorithm this0))"
    if "hwKeyStore this0 = Some hks0" "\<forall>k\<in>set hks0. alg k \<noteq> encryptionAlgorithm this0"
    using that by (simp add: encryptBody_def first_all_none[THEN iffD2])
  have a3: "decryptBody lib this0 b = Rejected (AlgorithmNotProvisioned (encryptionAlgorithm this0))"
    if "clientKeyStore this0 = Some cks0" "\<forall>k\<in>set cks0. alg k \<noteq> encryptionAlgorithm this0"
    using that by (simp add: decryptBody_def first_all_none[THEN iffD2])
  have a4: "checkSignature lib now this0 b = Rejected (AlgorithmNotProvisioned (signAlgorithm this0))"
    if "hwKeyStore this0 = Some hks0" "\<forall>k\<in>set hks0. alg k \<noteq> signAlgorithm this0"
    using that by (simp add: checkSignature_def first_all_none[THEN iffD2])
  have p1: "signBody lib now this P =
        (case createSign lib (signHeader_of this now sk) sk (JSON_stringify lib P) of
           Some v \<Rightarrow> Resolved v
         | None \<Rightarrow> Rejected (SigningFailed (kid sk)))"
    if "clientKeyStore this = Some (pre1 @ sk # post1)" "alg sk = signAlgorithm this"
      "\<forall>j\<in>set pre1. alg j \<noteq> signAlgorithm this"
    using that first_all_some[OF refl that(2,3), of post1]
    by (simp add: signBody_def split: option.splits)
  have p2: "encryptBody lib this b =
        (case createEncrypt lib (encryptionHeader_of this ek) ek b of
           Some v \<Rightarrow> Resolved v
         | None \<Rightarrow> Rejected (EncryptionFailed (kid ek)))"
    if "hwKeyStore this = Some (pre2 @ ek # post2)" "alg ek = encryptionAlgorithm this"
      "\<forall>j\<in>set pre2. alg j \<noteq> encryptionAlgorithm this"
    using that first_all_some[OF refl that(2,3), of post2]
    by (simp add: encryptBody_def split: option.splits)
  have p3: "decryptBody lib this b =
        (case createDecrypt lib dk b of
           Some plaintext \<Rightarrow> Resolved plaintext
         | None \<Rightarrow> Rejected (DecryptionFailed (kid dk)))"
    if "clientKeyStore this = Some (pre3 @ dk # post3)" "alg dk = encryptionAlgorithm this"
      "\<forall>j\<in>set pre3. alg j \<noteq> encryptionAlgorithm this"
    using that first_all_some[OF refl that(2,3), of post3]
    by (simp add: decryptBody_def split: option.splits)
  have p4: "checkSignature lib now this b =
        (case parseJWS lib b of
           Throws e \<Rightarrow> Rejected e
         | Rejects \<Rightarrow> Rejected (SignatureInvalid (kid vk))
         | Fulfils h \<Rightarrow>
             (case verifySignature lib vk b of
                Some r \<Rightarrow> resolve r (exp_handler now h Pending)
              | None \<Rightarrow> reject (SignatureInvalid (kid vk)) (exp_handler now h Pending)))"
    if "hwKeyStore this = Some (pre4 @ vk # post4)" "alg vk = signAlgorithm this"
      "\<forall>j\<in>set pre4. alg j \<noteq> signAlgorithm this"
    using that first_all_some[OF refl that(2,3), of post4]
    by (simp add: checkSignature_def split: option.splits call.splits)
  note n = AlgorithmNotProvisioned_names(1,2)[of a] AlgorithmNotProvisioned_names(3)[of a a']
  show ?thesis
    using a1 a2 a3 a4 p1 p2 p3 p4 n error_distinct(1-4)[of a x] error_distinct(5)[of a]
    by blast
qed

theorem key_lookup_by_algorithm_witness:
  "clientKeyStore demo_es256_only = Some demo_es256_keys \<and>
   hwKeyStore demo_es256_only = Some demo_es256_keys \<and>
   list_all (\<lambda>k. alg k \<noteq> signAlgorithm demo_es256_only) demo_es256_keys \<and>
   list_all (\<lambda>k. alg k \<noteq> encryptionAlgorithm demo_es256_only) demo_es256_keys \<and>
   clientKeyStore demo_ready = Some ([] @ demo_client_sig # [demo_client_enc]) \<and>
   clientKeyStore demo_ready = Some ([demo_client_sig] @ demo_client_enc # []) \<and>
   hwKeyStore demo_ready = Some ([] @ demo_hw_sig # [demo_hw_enc]) \<and>
   hwKeyStore demo_ready = Some ([demo_hw_sig] @ demo_hw_enc # []) \<and>
   alg demo_client_sig = signAlgorithm demo_ready \<and>
   alg demo_hw_sig = signAlgorithm demo_ready \<and>
   alg demo_client_enc = encryptionAlgorithm demo_ready \<and>
   alg demo_hw_enc = encryptionAlgorithm demo_ready \<and>
   list_all (\<lambda>j. alg j \<noteq> encryptionAlgorithm demo_ready) [demo_client_sig] \<and>
   list_all (\<lambda>j. alg j \<noteq> encryptionAlgorithm demo_ready) [demo_hw_sig] \<and>
   signBody demo_jose 0 demo_es256_only ''{amount:100}'' =
     Rejected (AlgorithmNotProvisioned (signAlgorithm demo_es256_only)) \<and>
   sublist ''RS256'' (message (AlgorithmNotProvisioned ''RS256'')) \<and>
   encryptBody demo_jose demo_es256_only demo_jwe =
     Rejected (AlgorithmNotProvisioned (encryptionAlgorithm demo_es256_only)) \<and>
   decryptBody demo_jose demo_es256_only demo_jwe =
     Rejected (AlgorithmNotProvisioned (encryptionAlgorithm demo_es256_only)) \<and>
   checkSignature demo_jose 0 demo_es256_only demo_jwe =
     Rejected (AlgorithmNotProvisioned (signAlgorithm demo_es256_only)) \<and>
   signBody demo_jose 0 demo_ready ''{amount:100}'' =
     (case createSign demo_jose (signHeader_of demo_ready 0 demo_client_sig) demo_client_sig
             (JSON_stringify demo_jose ''{amount:100}'') of
        Some v \<Rightarrow> Resolved v
      | None \<Rightarrow> Rejected (SigningFailed (kid demo_client_sig))) \<and>
   encryptBody demo_jose demo_ready demo_jwe =
     (case createEncrypt demo_jose (encryptionHeader_of demo_ready demo_hw_enc) demo_hw_enc
             demo_jwe of
        Some v \<Rightarrow> Resolved v
      | None \<Rightarrow> Rejected (EncryptionFailed (kid demo_hw_enc))) \<and>
   decryptBody demo_jose demo_ready demo_jwe =
     (case createDecrypt demo_jose demo_client_enc demo_jwe of
        Some plaintext \<Rightarrow> Resolved plaintext
      | None \<Rightarrow> Rejected (DecryptionFailed (kid demo_client_enc))) \<and>
   checkSignature demo_jose 0 demo_ready demo_jwe =
     (case parseJWS demo_jose demo_jwe of
        Throws e \<Rightarrow> Rejected e
      | Rejects \<Rightarrow> Rejected (SignatureInvalid (kid demo_hw_sig))
      | Fulfils h \<Rightarrow>
          (case verifySignature demo_jose demo_hw_sig demo_jwe of
             Some r \<Rightarrow> resolve r (exp_handler 0 h Pending)
           | None \<Rightarrow> reject (SignatureInvalid (kid demo_hw_sig)) (exp_handler 0 h Pending)))"
proof -
  have s0: "clientKeyStore demo_es256_only = Some demo_es256_keys"
    "hwKeyStore demo_es256_only = Some demo_es256_keys"
    by code_simp+
  have l0: "list_all (\<lambda>k. alg k \<noteq> signAlgorithm demo_es256_only) demo_es256_keys"
    "list_all (\<lambda>k. alg k \<noteq> encryptionAlgorithm demo_es256_only) demo_es256_keys"
    by code_simp+
  have s1: "clientKeyStore demo_ready = Some ([] @ demo_client_sig # [demo_client_enc])"
    "clientKeyStore demo_ready = Some ([demo_client_sig] @ demo_client_enc # [])"
    "hwKeyStore demo_ready = Some ([] @ demo_hw_sig # [demo_hw_enc])"
    "hwKeyStore demo_ready = Some ([demo_hw_sig] @ demo_hw_enc # [])"
    by code_simp+
  have a1: "alg demo_client_sig = signAlgorithm demo_ready"
    "alg demo_hw_sig = signAlgorithm demo_ready"
    "alg demo_client_enc = encryptionAlgorithm demo_ready"
    "alg demo_hw_enc = encryptionAlgorithm demo_ready"
    by code_simp+
  have l1: "list_all (\<lambda>j. alg j \<noteq> encryptionAlgorithm demo_ready) [demo_client_sig]"
    "list_all (\<lambda>j. alg j \<noteq> encryptionAlgorithm demo_ready) [demo_hw_sig]"
    by code_simp+
  have b0: "\<forall>k\<in>set demo_es256_keys. alg k \<noteq> signAlgorithm demo_es256_only"
    "\<forall>k\<in>set demo_es256_keys. alg k \<noteq> encryptionAlgorithm demo_es256_only"
    using l0 by (simp_all only: list_all_iff)
  have b1: "\<forall>j\<in>set [demo_client_sig]. alg j \<noteq> encryptionAlgorithm demo_ready"
    "\<forall>j\<in>set [demo_hw_sig]. alg j \<noteq> encryptionAlgorithm demo_ready"
    using l1 by (simp_all only: list_all_iff)
  have b2: "\<forall>j\<in>set ([] :: key list). alg j \<noteq> signAlgorithm demo_ready"
    by simp
  note t = key_lookup_by_algorithm[where ?this0.0 = demo_es256_only
      and ?cks0.0 = demo_es256_keys and ?hks0.0 = demo_es256_keys and lib = demo_jose and now = 0
      and P = "''{amount:100}''" and b = demo_jwe and this = demo_ready
      and a = "''RS256''"
      and ?pre1.0 = "[]" and sk = demo_client_sig and ?post1.0 = "[demo_client_enc]"
      and ?pre2.0 = "[demo_hw_sig]" and ek = demo_hw_enc and ?post2.0 = "[]"
      and ?pre3.0 = "[demo_client_sig]" and dk = demo_client_enc and ?post3.0 = "[]"
      and ?pre4.0 = "[]" and vk = demo_hw_sig and ?post4.0 = "[demo_hw_enc]"]
  show ?thesis
    using s0 l0 s1 a1 l1 b0 b1 b2 t by blast
qed

subsection \<open>Failures of key-store creation\<close>

text \<open>
  Claim C4, amended: key-store creation is not all-or-nothing over the two stores. When
  \<^verbatim>\<open>createKeyStore\<close> fails because the hyperwallet key-set location cannot be read, it
  rejects with the error of that read and changes neither store. When it fails after the
  hyperwallet key set has been read and parsed (the client key set cannot be read, or
  cannot be parsed), the hyperwallet store holds the key store just parsed and the client
  store is as it was; so one store can be populated while the other is still absent.
\<close>

theorem createKeyStore_failure:
  assumes "fst (createKeyStore lib sys this) \<noteq> Resolved ()"
  shows "case fst (readKeySet sys (hyperwalletKeySetLocation this)) of
           Rejected e \<Rightarrow>
             fst (createKeyStore lib sys this) = Rejected e \<and>
             fst (snd (createKeyStore lib sys this)) = this
         | Resolved d1 \<Rightarrow>
             (case asKeyStore lib d1 of
                Fulfils hks \<Rightarrow>
                  fst (snd (createKeyStore lib sys this)) = this\<lparr>hwKeyStore := Some hks\<rparr>
              | _ \<Rightarrow> True)
         | Pending \<Rightarrow> False"
proof (cases "fst (readKeySet sys (hyperwalletKeySetLocation this))")
  case Pending
  then show ?thesis
    by (simp add: readKeySet_settles)
next
  case (Rejected e)
  then show ?thesis
    by (simp add: createKeyStore_trace_hw)
next
  case (Resolved d1)
  show ?thesis
  proof (cases "asKeyStore lib d1")
    case (Fulfils hks)
    from assms show ?thesis
      by (simp add: createKeyStore_hw_parsed[OF Resolved Fulfils] Resolved Fulfils
          split: promise.splits call.splits)
  next
    case Rejects
    with Resolved show ?thesis
      by simp
  next
    case (Throws e)
    with Resolved show ?thesis
      by simp
  qed
qed

text \<open>
  The statement where the hyperwallet key set loads and the client key-set location is
  neither a file nor reachable.
\<close>

theorem createKeyStore_failure_witness:
  "fst (createKeyStore demo_jose demo_io demo_this_no_client) \<noteq> Resolved () \<and>
   (case fst (readKeySet demo_io (hyperwalletKeySetLocation demo_this_no_client)) of
      Rejected e \<Rightarrow>
        fst (createKeyStore demo_jose demo_io demo_this_no_client) = Rejected e \<and>
        fst (snd (createKeyStore demo_jose demo_io demo_this_no_client)) = demo_this_no_client
    | Resolved d1 \<Rightarrow>
        (case asKeyStore demo_jose d1 of
           Fulfils hks \<Rightarrow>
             fst (snd (createKeyStore demo_jose demo_io demo_this_no_client)) =
               demo_this_no_client\<lparr>hwKeyStore := Some hks\<rparr>
         | _ \<Rightarrow> True)
    | Pending \<Rightarrow> False) \<and>
   fst (readKeySet demo_io (hyperwalletKeySetLocation demo_this_no_client)) =
     Resolved (JsonText ''hw-jwks'') \<and>
   asKeyStore demo_jose (JsonText ''hw-jwks'') = Fulfils demo_hw_keys"
proof -
  have h: "fst (createKeyStore demo_jose demo_io demo_this_no_client) \<noteq> Resolved ()"
    by code_simp
  have r: "fst (readKeySet demo_io (hyperwalletKeySetLocation demo_this_no_client)) =
     Resolved (JsonText ''hw-jwks'')"
    "asKeyStore demo_jose (JsonText ''hw-jwks'') = Fulfils demo_hw_keys"
    by code_simp+
  show ?thesis
    using h r createKeyStore_failure[OF h] by blast
qed

text \<open>
  The claim as it stands fails where the hyperwallet key set loads and the client key-set
  location is neither a file nor reachable: the call fails, and it leaves the hyperwallet
  store newly populated beside an absent client store.
\<close>

theorem createKeyStore_partial_counterexample:
  "fst (createKeyStore demo_jose demo_io demo_this_no_client) =
     Rejected (WrongLocation ''missing.json'') \<and>
   hwKeyStore demo_this_no_client = None \<and>
   clientKeyStore demo_this_no_client = None \<and>
   hwKeyStore (fst (snd (createKeyStore demo_jose demo_io demo_this_no_client))) =
     Some demo_hw_keys \<and>
   clientKeyStore (fst (snd (createKeyStore demo_jose demo_io demo_this_no_client))) = None"
  by code_simp

subsection \<open>Fetching key sets once\<close>

text \<open>
  Claim C9, amended: once both key stores are populated, no later \<^verbatim>\<open>encrypt\<close> or
  \<^verbatim>\<open>decrypt\<close> call fetches a key set or changes a store. When a first \<^verbatim>\<open>encrypt\<close> call
  succeeds, a second call in sequence fetches nothing and leaves the object as the first
  call left it, so that the two calls together fetch at most one key set per store.
\<close>

theorem key_store_memoized:
  "(clientKeyStore this = Some cks \<and> hwKeyStore this = Some hks \<longrightarrow>
      snd (encrypt lib sys now this P) = (this, []) \<and>
      snd (decrypt lib sys now this b) = (this, [])) \<and>
   (fst (encrypt lib sys1 t1 this0 P1) = Resolved c \<longrightarrow>
      snd (snd (encrypt_twice lib sys1 t1 P1 sys2 t2 P2 this0)) =
        snd (encrypt lib sys1 t1 this0 P1) \<and>
      fetch_count st (snd (snd (snd (encrypt_twice lib sys1 t1 P1 sys2 t2 P2 this0)))) \<le> 1)"
proof -
  have a: "snd (encrypt lib sys now this P) = (this, []) \<and>
      snd (decrypt lib sys now this b) = (this, [])"
    if "clientKeyStore this = Some cks" "hwKeyStore this = Some hks"
    using that by (simp add: encrypt_ready decrypt_ready)
  have b: "snd (snd (encrypt_twice lib sys1 t1 P1 sys2 t2 P2 this0)) =
        snd (encrypt lib sys1 t1 this0 P1) \<and>
      fetch_count st (snd (snd (snd (encrypt_twice lib sys1 t1 P1 sys2 t2 P2 this0)))) \<le> 1"
    if r: "fst (encrypt lib sys1 t1 this0 P1) = Resolved c"
  proof -
    obtain r1 this1 tr1 where e1: "encrypt lib sys1 t1 this0 P1 = (r1, this1, tr1)"
      by (cases "encrypt lib sys1 t1 this0 P1") auto
    from encrypt_resolved[OF r, of st] e1
    obtain cks' hks' where k: "clientKeyStore this1 = Some cks'" "hwKeyStore this1 = Some hks'"
      and f: "fetch_count st tr1 \<le> 1"
      by auto
    have "snd (encrypt lib sys2 t2 this1 P2) = (this1, [])"
      by (simp add: encrypt_ready[OF k])
    then show ?thesis
      using e1 f by (simp add: encrypt_twice_def case_prod_beta)
  qed
  show ?thesis using a b by blast
qed

theorem key_store_memoized_witness:
  "clientKeyStore demo_ready = Some demo_client_keys \<and>
   hwKeyStore demo_ready = Some demo_hw_keys \<and>
   fst (encrypt demo_jose demo_io 0 demo_this ''{amount:100}'') = Resolved demo_jwe \<and>
   snd (encrypt demo_jose demo_io 0 demo_ready ''{amount:100}'') = (demo_ready, []) \<and>
   snd (decrypt demo_jose demo_io 0 demo_ready demo_jwe) = (demo_ready, []) \<and>
   snd (snd (encrypt_twice demo_jose demo_io 0 ''{amount:100}'' demo_io 1000 ''{amount:200}''
               demo_this)) =
     snd (encrypt demo_jose demo_io 0 demo_this ''{amount:100}'') \<and>
   fetch_count HyperwalletStore
     (snd (snd (snd (encrypt_twice demo_jose demo_io 0 ''{amount:100}'' demo_io 1000
                       ''{amount:200}'' demo_this)))) \<le> 1"
proof -
  have h1: "clientKeyStore demo_ready = Some demo_client_keys"
    "hwKeyStore demo_ready = Some demo_hw_keys"
    by code_simp+
  have h2: "fst (encrypt demo_jose demo_io 0 demo_this ''{amount:100}'') = Resolved demo_jwe"
    by code_simp
  note t = key_store_memoized[where this = demo_ready and cks = demo_client_keys
      and hks = demo_hw_keys and lib = demo_jose and sys = demo_io and now = 0
      and P = "''{amount:100}''" and b = demo_jwe and ?sys1.0 = demo_io and ?t1.0 = 0
      and ?this0.0 = demo_this and ?P1.0 = "''{amount:100}''" and c = demo_jwe
      and ?sys2.0 = demo_io and ?t2.0 = 1000 and ?P2.0 = "''{amount:200}''"
      and st = HyperwalletStore]
  show ?thesis
    using h1 h2 t by blast
qed

text \<open>
  The claim as it stands fails where the client key-set location cannot be read: the
  first \<^verbatim>\<open>encrypt\<close> call populates the hyperwallet store and fails, and the second call
  fetches the hyperwallet key set a second time.
\<close>

theorem key_store_refetch_counterexample:
  "hwKeyStore (fst (snd (encrypt demo_jose demo_io 0 demo_this_no_client ''{amount:100}''))) =
     Some demo_hw_keys \<and>
   fetch_count HyperwalletStore
     (snd (snd (snd (encrypt_twice demo_jose demo_io 0 ''{amount:100}'' demo_io 0 ''{amount:100}''
                       demo_this_no_client)))) = 2"
  by code_simp

subsection \<open>Decrypting what was encrypted\<close>

text \<open>
  Claim C1, amended: for every payload \<open>P\<close>, when both key sets are there or can be
  loaded, the keys selected from them for the configured signing and encryption
  algorithms are matching pairs, and the clock that \<^verbatim>\<open>decrypt\<close> reads, in seconds, is not
  later than the \<^verbatim>\<open>exp\<close> that \<^verbatim>\<open>encrypt\<close> signed, \<^verbatim>\<open>decrypt(encrypt(P))\<close> succeeds and the
  verified payload it returns is the JSON serialization of \<open>P\<close>.
\<close>

theorem decrypt_encrypt_roundtrip:
  assumes load: "loadable_keySets lib sys1 this = Some (cks, hks)"
      and sk: "first (KeyStore_all cks (signAlgorithm this)) = Some sk"
      and vk: "first (KeyStore_all hks (signAlgorithm this)) = Some vk"
      and ek: "first (KeyStore_all hks (encryptionAlgorithm this)) = Some ek"
      and dk: "first (KeyStore_all cks (encryptionAlgorithm this)) = Some dk"
      and pairs: "matching_key_pairs lib sk vk ek dk (signHeader_of this t1 sk)
                    (encryptionHeader_of this ek) (JSON_stringify lib P)"
      and fresh: "getCurrentTime t2 \<le> getSignatureExpirationTime this t1"
  shows "map_promise vr_payload (decrypt_encrypt lib sys1 t1 sys2 t2 this P) =
           Resolved (JSON_stringify lib P)"
proof -
  define this1 where "this1 = this\<lparr>hwKeyStore := Some hks, clientKeyStore := Some cks\<rparr>"
  have st: "clientKeyStore this1 = Some cks" "hwKeyStore this1 = Some hks"
    "signAlgorithm this1 = signAlgorithm this"
    "encryptionAlgorithm this1 = encryptionAlgorithm this"
    "signHeader_of this1 t1 sk = signHeader_of this t1 sk"
    "encryptionHeader_of this1 ek = encryptionHeader_of this ek"
    by (simp_all add: this1_def signHeader_of_def encryptionHeader_of_def
        getSignatureExpirationTime_def)
  from pairs obtain j jh r c where
    j: "createSign lib (signHeader_of this t1 sk) sk (JSON_stringify lib P) = Some j"
    and jh: "parseJWS lib j = Fulfils jh"
      "jh_exp jh = Some (sh_exp (signHeader_of this t1 sk))"
    and r: "verifySignature lib vk j = Some r" "vr_payload r = JSON_stringify lib P"
    and c: "createEncrypt lib (encryptionHeader_of this ek) ek j = Some c"
      "createDecrypt lib dk c = Some j"
    by (auto simp: matching_key_pairs_def matching_signing_pair_def
        matching_encryption_pair_def split: option.splits call.splits)
  from ensure_loadable[OF load] obtain tr where
    "(if clientKeyStore this \<noteq> None \<and> hwKeyStore this \<noteq> None
               then (Resolved (), this, [])
               else createKeyStore lib sys1 this) = (Resolved (), this1, tr)"
    unfolding this1_def by blast
  then have enc: "encrypt lib sys1 t1 this P = (Resolved c, this1, tr)"
    by (simp add: encrypt_def signBody_def encryptBody_def st sk ek j c)
  have exp: "sh_exp (signHeader_of this t1 sk) = getSignatureExpirationTime this t1"
    by (simp add: signHeader_of_def)
  have chk: "checkSignature lib t2 this1 j = Resolved r"
    using fresh by (simp add: checkSignature_def exp_handler_def st vk jh r exp)
  have dec: "decrypt lib sys2 t2 this1 c = (Resolved r, this1, [])"
    by (simp add: decrypt_def decryptBody_def st dk c chk)
  show ?thesis
    by (simp add: decrypt_encrypt_def enc dec r)
qed

theorem decrypt_encrypt_roundtrip_witness:
  "loadable_keySets demo_jose demo_io demo_this = Some (demo_client_keys, demo_hw_keys) \<and>
   first (KeyStore_all demo_client_keys (signAlgorithm demo_this)) = Some demo_client_sig \<and>
   first (KeyStore_all demo_hw_keys (signAlgorithm demo_this)) = Some demo_hw_sig \<and>
   first (KeyStore_all demo_hw_keys (encryptionAlgorithm demo_this)) = Some demo_hw_enc \<and>
   first (KeyStore_all demo_client_keys (encryptionAlgorithm demo_this)) = Some demo_client_enc \<and>
   matching_key_pairs demo_jose demo_client_sig demo_hw_sig demo_hw_enc demo_client_enc
     (signHeader_of demo_this 0 demo_client_sig) (encryptionHeader_of demo_this demo_hw_enc)
     (JSON_stringify demo_jose ''{amount:100}'') \<and>
   getCurrentTime 0 \<le> getSignatureExpirationTime demo_this 0 \<and>
   map_promise vr_payload
       (decrypt_encrypt demo_jose demo_io 0 demo_io 0 demo_this ''{amount:100}'') =
     Resolved (JSON_stringify demo_jose ''{amount:100}'')"
proof -
  have h1: "loadable_keySets demo_jose demo_io demo_this = Some (demo_client_keys, demo_hw_keys)"
    by code_simp
  have h2: "first (KeyStore_all demo_client_keys (signAlgorithm demo_this)) = Some demo_client_sig"
    by code_simp
  have h3: "first (KeyStore_all demo_hw_keys (signAlgorithm demo_this)) = Some demo_hw_sig"
    by code_simp
  have h4: "first (KeyStore_all demo_hw_keys (encryptionAlgorithm demo_this)) = Some demo_hw_enc"
    by code_simp
  have h5: "first (KeyStore_all demo_client_keys (encryptionAlgorithm demo_this)) =
      Some demo_client_enc"
    by code_simp
  have h6: "matching_key_pairs demo_jose demo_client_sig demo_hw_sig demo_hw_enc demo_client_enc
     (signHeader_of demo_this 0 demo_client_sig) (encryptionHeader_of demo_this demo_hw_enc)
     (JSON_stringify demo_jose ''{amount:100}'')"
    by code_simp
  have h7: "getCurrentTime 0 \<le> getSignatureExpirationTime demo_this 0"
    by code_simp
  note t = decrypt_encrypt_roundtrip[OF h1 h2 h3 h4 h5 h6 h7, of demo_io]
  show ?thesis
    using h1 h2 h3 h4 h5 h6 h7 t by blast
qed

text \<open>
  The claim as it stands fails when \<^verbatim>\<open>decrypt\<close> runs after the signature has expired:
  with the same matching keys and the default window of five minutes, decrypting six
  minutes after encrypting is rejected with the expiry error. With a window of minus one
  minute the same happens when both calls read the same clock.
\<close>

theorem decrypt_encrypt_expired_counterexample:
  "loadable_keySets demo_jose demo_io demo_this = Some (demo_client_keys, demo_hw_keys) \<and>
   matching_key_pairs demo_jose demo_client_sig demo_hw_sig demo_hw_enc demo_client_enc
     (signHeader_of demo_this 0 demo_client_sig) (encryptionHeader_of demo_this demo_hw_enc)
     (JSON_stringify demo_jose ''{amount:100}'') \<and>
   fst (encrypt demo_jose demo_io 0 demo_this ''{amount:100}'') = Resolved demo_jwe \<and>
   decrypt_encrypt demo_jose demo_io 0 demo_io 360000 demo_this ''{amount:100}'' =
     Rejected SignatureExpired \<and>
   matching_key_pairs demo_jose demo_client_sig demo_hw_sig demo_hw_enc demo_client_enc
     (signHeader_of (demo_this\<lparr>jwsExpirationMinutes := - 1\<rparr>) 120000 demo_client_sig)
     (encryptionHeader_of (demo_this\<lparr>jwsExpirationMinutes := - 1\<rparr>) demo_hw_enc)
     (JSON_stringify demo_jose ''{amount:100}'') \<and>
   decrypt_encrypt demo_jose demo_io 120000 demo_io 120000
       (demo_this\<lparr>jwsExpirationMinutes := - 1\<rparr>) ''{amount:100}'' =
     Rejected SignatureExpired"
  by code_simp

end
